theory Spec2Isabelle
  imports Main
begin

section \<open>JavaScript values\<close>

text \<open>
  Strings are \<^typ>\<open>string\<close>. A string is truthy when it is not empty. An optional
  property that the code only tests for truthiness, or reads with \<open>?.\<close>, is an
  \<^typ>\<open>'a option\<close> (\<open>None\<close> stands for both \<open>undefined\<close> and \<open>null\<close>). Where the
  code tells \<open>undefined\<close> from \<open>null\<close> (the \<open>!== undefined\<close> tests and the \<open>??\<close>
  operator of \<open>bookingReferenceToVideoCallData\<close>), the property is a \<open>nullable\<close>.
\<close>

datatype 'a nullable = Undefined | Null | Val 'a

definition coalesce :: "'a nullable \<Rightarrow> 'a \<Rightarrow> 'a" where
  "coalesce v d = (case v of Undefined \<Rightarrow> d | Null \<Rightarrow> d | Val x \<Rightarrow> x)"

definition truthy_string :: "string \<Rightarrow> bool" where
  "truthy_string s = (s \<noteq> [])"

definition truthy_opt_string :: "string option \<Rightarrow> bool" where
  "truthy_opt_string v = (case v of None \<Rightarrow> False | Some s \<Rightarrow> truthy_string s)"

definition truthy_opt_bool :: "bool option \<Rightarrow> bool" where
  "truthy_opt_bool v = (case v of None \<Rightarrow> False | Some b \<Rightarrow> b)"

definition startsWith :: "string \<Rightarrow> string \<Rightarrow> bool" where
  "startsWith s t = (take (length t) s = t)"

definition endsWith :: "string \<Rightarrow> string \<Rightarrow> bool" where
  "endsWith s t = (length t \<le> length s \<and> drop (length s - length t) s = t)"

fun str_includes :: "string \<Rightarrow> string \<Rightarrow> bool" where
  "str_includes [] t = (t = [])"
| "str_includes (c # cs) t = (startsWith (c # cs) t \<or> str_includes cs t)"

text \<open>\<open>String.prototype.replace\<close> with a string pattern: the first occurrence only.\<close>

fun str_replace :: "string \<Rightarrow> string \<Rightarrow> string \<Rightarrow> string" where
  "str_replace [] t r = (if t = [] then r else [])"
| "str_replace (c # cs) t r =
     (if startsWith (c # cs) t then r @ drop (length t) (c # cs)
      else c # str_replace cs t r)"

text \<open>A rejected promise or a thrown exception, by the value it carries.\<close>

datatype rejection =
    Error string
  | TypeError string
  | RejectedString string
  | RejectedEmptyList
  | RejectedNull

section \<open>Data model\<close>

record AuthCredentials =
  expiry_date :: int
  access_token :: string
  refresh_token :: string

record Credential =
  cr_id :: nat
  cr_type :: string
  cr_key :: AuthCredentials

record Person =
  p_name :: string
  email :: string
  timeZone :: string

record CreateConferenceRequest =
  requestId :: "string option"
  conferenceSolutionKey :: "string option"
  status :: "string option"

record ConferenceData =
  createRequest :: CreateConferenceRequest

record EntryPoint =
  entryPointType :: "string option"
  uri :: "string option"
  label :: "string option"
  pin :: "string option"

record AdditionInformation =
  ai_conferenceData :: "ConferenceData option"
  ai_entryPoints :: "EntryPoint list option"
  ai_hangoutLink :: "string option"

record VideoCallData =
  vcd_type :: string
  vcd_id :: string
  password :: string
  url :: string

text \<open>
  \<open>CalendarEvent\<close> of \<open>calendarClient.ts\<close>. The \<open>language\<close> handle (a translation
  function) is used by the mail templates only and is left out.
\<close>

record CalendarEvent =
  ce_type :: string
  title :: string
  startTime :: string
  endTime :: string
  description :: "string option"
  team :: "(string \<times> string list) option"
  location :: "string option"
  organizer :: Person
  attendees :: "Person list"
  conferenceData :: "ConferenceData option"
  additionInformation :: "AdditionInformation option"
  uid :: "string option"
  videoCallData :: "VideoCallData option"

text \<open>
  \<open>Event\<close> of \<open>EventManager\<close>: what a provider returns for a created or updated
  entry. \<open>ev_id\<close> is the provider's \<open>id\<close> after \<open>toString()\<close>.
\<close>

record Event =
  ev_name :: string
  ev_id :: string
  disableConfirmationEmail :: "bool option"
  ev_hangoutLink :: "string option"
  ev_conferenceData :: "ConferenceData option"
  ev_entryPoints :: "EntryPoint list option"

text \<open>
  What an adapter's \<open>updateEvent\<close> resolves with (\<open>Promise<any>\<close>): an object, or the
  response text of the Office 365 adapter (\<open>handleErrorsRaw\<close>).
\<close>

datatype UpdatedEvent = EventObject Event | EventText string

text \<open>
  \<open>EventResult\<close>. Its \<open>originalEvent\<close> is a reference to the request's one
  \<open>CalendarEvent\<close> object, which the request keeps mutating; that object lives in the
  state (\<open>the_event\<close> below), so the record holds no copy of it.
\<close>

record EventResult =
  er_type :: string
  success :: bool
  er_uid :: string
  createdEvent :: "Event option"
  updatedEvent :: "UpdatedEvent option"
  er_videoCallData :: "VideoCallData option"

record PartialReference =
  ref_id :: "nat option"
  ref_type :: string
  ref_uid :: string
  meetingId :: "string nullable"
  meetingPassword :: "string nullable"
  meetingUrl :: "string nullable"

record PartialBooking =
  bk_id :: nat
  references :: "PartialReference list"

record CreateUpdateResult =
  results :: "EventResult list"
  referencesToCreate :: "PartialReference list"

text \<open>
  The \<open>LocationType\<close> enum is imported from \<open>@lib/location\<close>, which is not among the
  sources: its three integration members are parameters.
\<close>

record LocationType =
  GoogleMeet :: string
  Zoom :: string
  Daily :: string

section \<open>EventManager: the pure helpers\<close>

text \<open>
  \<open>isDedicatedIntegration(location: string)\<close>. Its two \<open>===\<close> comparisons are defined
  for every value, so the argument is an optional string: at \<open>null\<close> (\<open>None\<close>) both
  comparisons are false.
\<close>

definition isDedicatedIntegration :: "string option \<Rightarrow> bool" where
  "isDedicatedIntegration l =
     (l = Some ''integrations:zoom'' \<or> l = Some ''integrations:daily'')"

text \<open>
  The expression \<open>evt.location ? EventManager.isDedicatedIntegration(evt.location) : null\<close>
  of \<open>create\<close> and \<open>update\<close>.
\<close>

definition isDedicated_of :: "string option \<Rightarrow> bool option" where
  "isDedicated_of l = (if truthy_opt_string l then Some (isDedicatedIntegration l) else None)"

record LocationRequest =
  lr_conferenceData :: ConferenceData
  lr_location :: string

text \<open>
  \<open>uuidv5(location, uuidv5.URL)\<close> is the \<open>uuid\<close> library's name-based identifier;
  the function is the parameter \<open>uuid\<close>.
\<close>

definition getLocationRequestFromIntegration ::
  "LocationType \<Rightarrow> (string \<Rightarrow> string) \<Rightarrow> string \<Rightarrow> LocationRequest option" where
  "getLocationRequestFromIntegration lt uuid l =
     (if l = GoogleMeet lt \<or> l = Zoom lt \<or> l = Daily lt then
        (let rid = uuid l in
         Some \<lparr>lr_conferenceData =
                 \<lparr>createRequest =
                    \<lparr>requestId = Some rid, conferenceSolutionKey = None, status = None\<rparr>\<rparr>,
               lr_location = l\<rparr>)
      else None)"

text \<open>
  \<open>lodash/merge\<close> on the two shapes that \<open>processLocation\<close> gives it: own properties
  of the source are merged into the destination recursively, a property the source
  does not define is skipped, and a \<open>null\<close> source changes nothing.
\<close>

definition merge_prop :: "'a option \<Rightarrow> 'a option \<Rightarrow> 'a option" where
  "merge_prop d s = (case s of None \<Rightarrow> d | Some v \<Rightarrow> Some v)"

definition merge_createRequest ::
  "CreateConferenceRequest \<Rightarrow> CreateConferenceRequest \<Rightarrow> CreateConferenceRequest" where
  "merge_createRequest d s =
     \<lparr>requestId = merge_prop (requestId d) (requestId s),
      conferenceSolutionKey = merge_prop (conferenceSolutionKey d) (conferenceSolutionKey s),
      status = merge_prop (status d) (status s)\<rparr>"

definition merge_conferenceData :: "ConferenceData option \<Rightarrow> ConferenceData \<Rightarrow> ConferenceData" where
  "merge_conferenceData d s =
     (case d of
        None \<Rightarrow> s
      | Some c \<Rightarrow> \<lparr>createRequest = merge_createRequest (createRequest c) (createRequest s)\<rparr>)"

definition merge :: "CalendarEvent \<Rightarrow> LocationRequest option \<Rightarrow> CalendarEvent" where
  "merge event obj =
     (case obj of
        None \<Rightarrow> event
      | Some r \<Rightarrow>
          event\<lparr>conferenceData := Some (merge_conferenceData (conferenceData event) (lr_conferenceData r)),
                location := Some (lr_location r)\<rparr>)"

definition processLocation ::
  "LocationType \<Rightarrow> (string \<Rightarrow> string) \<Rightarrow> CalendarEvent \<Rightarrow> CalendarEvent" where
  "processLocation lt uuid event =
     (case location event of
        None \<Rightarrow> event
      | Some l \<Rightarrow>
          if str_includes l ''integration''
          then merge event (getLocationRequestFromIntegration lt uuid l)
          else event)"

definition bookingReferenceToVideoCallData ::
  "PartialReference option \<Rightarrow> rejection + VideoCallData option" where
  "bookingReferenceToVideoCallData reference =
     (case reference of
        None \<Rightarrow> Inl (Error ''missing reference'')
      | Some r \<Rightarrow>
          (let isComplete =
                 (if ref_type r = ''zoom_video''
                  then meetingId r \<noteq> Undefined \<and> meetingPassword r \<noteq> Undefined
                       \<and> meetingUrl r \<noteq> Undefined
                  else True)
           in if isComplete
              then Inr (Some \<lparr>vcd_type = ref_type r,
                              vcd_id = coalesce (meetingId r) '''',
                              password = coalesce (meetingPassword r) '''',
                              url = coalesce (meetingUrl r) ''''\<rparr>)
              else Inr None))"

text \<open>The conference-request id an event carries, if any.\<close>

definition requestId_of :: "CalendarEvent \<Rightarrow> string option" where
  "requestId_of event =
     (case conferenceData event of None \<Rightarrow> None | Some c \<Rightarrow> requestId (createRequest c))"

text \<open>A location that \<open>processLocation\<close> enriches: it passes both of its tests.\<close>

definition recognized :: "LocationType \<Rightarrow> string \<Rightarrow> bool" where
  "recognized lt l =
     (str_includes l ''integration'' \<and> (l = GoogleMeet lt \<or> l = Zoom lt \<or> l = Daily lt))"

section \<open>Promises, effects and the collaborators\<close>

datatype mail =
    EventOrganizerMail
  | EventOrganizerRescheduledMail
  | EventAttendeeMail
  | EventAttendeeRescheduledMail

text \<open>What a request does to the outside, in the order it does it.\<close>

datatype effect =
    SendEmail mail CalendarEvent
  | TokenRefresh Credential
  | CredentialUpdate nat AuthCredentials
  | AdapterCreateEvent Credential CalendarEvent
  | AdapterUpdateEvent Credential string CalendarEvent
  | AdapterDeleteEvent Credential string
  | AdapterGetAvailability Credential
  | CreateMeeting Credential
  | UpdateMeeting Credential "string option"
  | BookingFindFirst string
  | BookingReferenceDeleteMany nat
  | AttendeeDeleteMany nat
  | BookingDelete nat

text \<open>
  The state of a request: the one \<open>CalendarEvent\<close> object that \<open>create\<close> and \<open>update\<close>
  are given and that they, \<open>createEvent\<close> and \<open>sendAttendeeMail\<close> mutate in place (the
  functions below read their \<open>event\<close>/\<open>calEvent\<close> parameter from it), and the effects so
  far. A promise is a function of the state that settles with a rejection or a value.
\<close>

record world =
  the_event :: CalendarEvent
  effects :: "effect list"

type_synonym 'a promise = "world \<Rightarrow> (rejection + 'a) \<times> world"

definition resolve :: "'a \<Rightarrow> 'a promise" where
  "resolve a = (\<lambda>w. (Inr a, w))"

definition reject :: "rejection \<Rightarrow> 'a promise" where
  "reject e = (\<lambda>w. (Inl e, w))"

definition settled :: "rejection + 'a \<Rightarrow> 'a promise" where
  "settled r = (\<lambda>w. (r, w))"

definition andThen :: "'a promise \<Rightarrow> ('a \<Rightarrow> 'b promise) \<Rightarrow> 'b promise" where
  "andThen m f = (\<lambda>w. case m w of (Inl e, w') \<Rightarrow> (Inl e, w') | (Inr a, w') \<Rightarrow> f a w')"

definition catch :: "'a promise \<Rightarrow> (rejection \<Rightarrow> 'a promise) \<Rightarrow> 'a promise" where
  "catch m h = (\<lambda>w. case m w of (Inl e, w') \<Rightarrow> h e w' | (Inr a, w') \<Rightarrow> (Inr a, w'))"

definition emit :: "effect \<Rightarrow> unit promise" where
  "emit x = (\<lambda>w. (Inr (), w\<lparr>effects := effects w @ [x]\<rparr>))"

definition get_event :: "CalendarEvent promise" where
  "get_event = (\<lambda>w. (Inr (the_event w), w))"

definition modify_event :: "(CalendarEvent \<Rightarrow> CalendarEvent) \<Rightarrow> unit promise" where
  "modify_event f = (\<lambda>w. (Inr (), w\<lparr>the_event := f (the_event w)\<rparr>))"

text \<open>
  \<open>Promise.all\<close>: every promise of the list has been started and runs; the result is
  the list of their values, or a rejection when one of them rejects (the first in list
  order here).
\<close>

fun promise_all :: "'a promise list \<Rightarrow> 'a list promise" where
  "promise_all [] = resolve []"
| "promise_all (p # ps) =
     (\<lambda>w. case p w of
        (r, w') \<Rightarrow>
          (case promise_all ps w' of
             (rs, w'') \<Rightarrow>
               ((case r of
                   Inl e \<Rightarrow> Inl e
                 | Inr a \<Rightarrow> (case rs of Inl e \<Rightarrow> Inl e | Inr as \<Rightarrow> Inr (a # as))),
                w'')))"

text \<open>
  \<open>async.mapLimit(coll, limit, iteratee)\<close>: up to \<open>limit\<close> iteratees are in flight at a
  time, and the next item is started when one of them has settled. The result is the
  list of the values in the order of \<open>coll\<close>. When an iteratee rejects, the result is
  its rejection and no further item is started, but the other \<open>limit - 1\<close> that are
  in flight then run to their end (\<open>run_started\<close>). The iteratees settle in the order
  of \<open>coll\<close> here, and the effects of one are recorded before those of the next; with
  no more than \<open>limit\<close> items every iteratee runs, whatever the others do.
\<close>

fun run_started :: "'a list \<Rightarrow> ('a \<Rightarrow> 'b promise) \<Rightarrow> world \<Rightarrow> world" where
  "run_started [] f w = w"
| "run_started (x # xs) f w = run_started xs f (snd (f x w))"

fun mapLimit :: "'a list \<Rightarrow> nat \<Rightarrow> ('a \<Rightarrow> 'b promise) \<Rightarrow> 'b list promise" where
  "mapLimit [] limit f = resolve []"
| "mapLimit (x # xs) limit f =
     (\<lambda>w. case f x w of
        (Inl err, w') \<Rightarrow> (Inl err, run_started (take (limit - 1) xs) f w')
      | (Inr y, w') \<Rightarrow> andThen (mapLimit xs limit f) (\<lambda>ys. resolve (y # ys)) w')"

record 'a Response =
  ok :: bool
  statusText :: string
  body :: 'a

record OfficeCalendar =
  oc_id :: "string option"
  oc_name :: "string option"
  isDefaultCalendar :: "bool option"

record BufferedBusyTime =
  bt_start :: string
  bt_end :: string

text \<open>
  \<open>IntegrationCalendar\<close>; a \<open>SelectedCalendar\<close> of the database is one with
  \<open>integration\<close> and \<open>externalId\<close> set.
\<close>

record IntegrationCalendar =
  externalId :: "string option"
  integration :: "string option"
  ic_name :: "string option"
  primary :: "bool option"

text \<open>
  The Google client library: \<open>isTokenExpiring\<close> and \<open>refreshToken\<close> of the OAuth2
  client (which is represented by the credentials it holds), and the calendar calls
  with what they hand to their callback (\<open>Inl\<close> the \<open>err\<close>, \<open>Inr\<close> the \<open>data\<close>). A
  refresh answer without token data makes \<open>refreshAccessToken\<close> throw inside its own
  \<open>.catch\<close> and counts as \<open>Inl\<close>. The calendar calls stand for the service's answer
  to a request that was sent; what the client does before it sends one is
  \<open>google_authorize\<close> below. The request payload is a function of the event and is not
  built separately.
\<close>

record google_api =
  isTokenExpiring :: "AuthCredentials \<Rightarrow> bool"
  refreshToken :: "string \<Rightarrow> rejection + (string \<times> int)"
  events_insert :: "AuthCredentials \<Rightarrow> CalendarEvent \<Rightarrow> rejection + Event option"
  events_update :: "AuthCredentials \<Rightarrow> string \<Rightarrow> CalendarEvent \<Rightarrow> rejection + Event option"
  events_delete :: "AuthCredentials \<Rightarrow> string \<Rightarrow> rejection + unit"
  calendarList_list :: "AuthCredentials \<Rightarrow> rejection + string option list option"
  freebusy_query ::
    "AuthCredentials \<Rightarrow> string \<Rightarrow> string \<Rightarrow> string option list \<Rightarrow> rejection + BufferedBusyTime list list"

text \<open>
  Microsoft's endpoints through \<open>fetch\<close>: a transport failure (\<open>Inl\<close>) or a response.
  The token endpoint answers with \<open>(access_token, expires_in)\<close>.
\<close>

record graph_api =
  post_token :: "string \<Rightarrow> rejection + (string \<times> int) Response"
  post_event :: "string \<Rightarrow> CalendarEvent \<Rightarrow> rejection + Event Response"
  patch_event :: "string \<Rightarrow> string \<Rightarrow> CalendarEvent \<Rightarrow> rejection + string Response"
  delete_event :: "string \<Rightarrow> string \<Rightarrow> rejection + string Response"
  get_calendars :: "string \<Rightarrow> rejection + OfficeCalendar list Response"
  post_batch ::
    "string \<Rightarrow> string list \<Rightarrow> string \<Rightarrow> string \<Rightarrow> rejection + BufferedBusyTime list list Response"

record prisma_api =
  credential_update :: "nat \<Rightarrow> AuthCredentials \<Rightarrow> rejection option"
  booking_findFirst :: "string \<Rightarrow> rejection + PartialBooking option"
  bookingReference_deleteMany :: "nat \<Rightarrow> rejection option"
  attendee_deleteMany :: "nat \<Rightarrow> rejection option"
  booking_delete :: "nat \<Rightarrow> rejection option"

text \<open>
  The modules that are imported and not among the sources: the CalDAV and Apple
  adapters (\<open>dav_*\<close>), \<open>@lib/videoClient\<close>, \<open>CalEventParser\<close>, the mail classes'
  \<open>sendEmail\<close>, the \<open>uuid\<close> library, \<open>@lib/location\<close>, the Daily adapter's
  \<open>FAKE_DAILY_CREDENTIAL\<close>; and the clock (\<open>+new Date()\<close>, in milliseconds) and
  \<open>process.env.DAILY_API_KEY\<close>.
\<close>

record collaborators =
  dav_createEvent :: "Credential \<Rightarrow> CalendarEvent \<Rightarrow> rejection + Event"
  dav_updateEvent :: "Credential \<Rightarrow> string \<Rightarrow> CalendarEvent \<Rightarrow> rejection + UpdatedEvent option"
  dav_deleteEvent :: "Credential \<Rightarrow> string \<Rightarrow> rejection + unit"
  dav_getAvailability ::
    "Credential \<Rightarrow> string \<Rightarrow> string \<Rightarrow> IntegrationCalendar list \<Rightarrow> rejection + BufferedBusyTime list"
  createMeeting :: "Credential \<Rightarrow> CalendarEvent \<Rightarrow> rejection + EventResult"
  updateMeeting :: "Credential \<Rightarrow> CalendarEvent \<Rightarrow> string option \<Rightarrow> rejection + EventResult"
  getUid :: "CalendarEvent \<Rightarrow> string"
  asRichEventPlain :: "CalendarEvent \<Rightarrow> CalendarEvent"
  sendEmail :: "mail \<Rightarrow> CalendarEvent \<Rightarrow> rejection option"
  uuidv5 :: "string \<Rightarrow> string"
  locationType :: LocationType
  FAKE_DAILY_CREDENTIAL :: Credential
  DAILY_API_KEY :: "string option"
  now :: int

record env =
  google :: google_api
  graph :: graph_api
  prisma :: prisma_api
  ext :: collaborators

section \<open>calendarClient: token refresh\<close>

text \<open>\<open>Math.round(ms / 1000)\<close> for a whole number of milliseconds.\<close>

definition round_seconds :: "int \<Rightarrow> int" where
  "round_seconds ms = (ms + 500) div 1000"

definition handleErrorsJson :: "'a Response \<Rightarrow> rejection + 'a" where
  "handleErrorsJson response =
     (if \<not> ok response then Inl (Error (statusText response)) else Inr (body response))"

definition handleErrorsRaw :: "string Response \<Rightarrow> rejection + string" where
  "handleErrorsRaw response =
     (if \<not> ok response then Inl (Error (statusText response)) else Inr (body response))"

text \<open>\<open>fetch(...).then(handler)\<close>.\<close>

definition fetch_then :: "rejection + 'a Response \<Rightarrow> ('a Response \<Rightarrow> rejection + 'b) \<Rightarrow> 'b promise" where
  "fetch_then r handler = (case r of Inl e \<Rightarrow> reject e | Inr response \<Rightarrow> settled (handler response))"

definition prisma_credential_update :: "env \<Rightarrow> nat \<Rightarrow> AuthCredentials \<Rightarrow> unit promise" where
  "prisma_credential_update e i k =
     andThen (emit (CredentialUpdate i k))
       (\<lambda>_. case credential_update (prisma e) i k of None \<Rightarrow> resolve () | Some err \<Rightarrow> reject err)"

text \<open>
  \<open>googleAuth(credential).getToken()\<close>. The OAuth2 client it resolves with is
  represented by the credentials that client holds; \<open>googleCredentials\<close> is the very
  object the client was given, so the refreshed token is in the client as soon as it is
  assigned. The \<open>.catch\<close> covers the refresh request and the database update alike.
\<close>

definition google_refreshAccessToken :: "env \<Rightarrow> Credential \<Rightarrow> AuthCredentials promise" where
  "google_refreshAccessToken e credential =
     (let googleCredentials = cr_key credential in
      andThen (emit (TokenRefresh credential))
        (\<lambda>_. case refreshToken (google e) (refresh_token googleCredentials) of
           Inl err \<Rightarrow> resolve googleCredentials
         | Inr (token, expiry) \<Rightarrow>
             (let refreshed = googleCredentials\<lparr>access_token := token, expiry_date := expiry\<rparr>
              in catch (andThen (prisma_credential_update e (cr_id credential) refreshed)
                         (\<lambda>_. resolve refreshed))
                       (\<lambda>err. resolve refreshed))))"

definition google_getToken :: "env \<Rightarrow> Credential \<Rightarrow> AuthCredentials promise" where
  "google_getToken e credential =
     (if \<not> isTokenExpiring (google e) (cr_key credential) then resolve (cr_key credential)
      else google_refreshAccessToken e credential)"

text \<open>
  A calendar call is made with \<open>auth: myGoogleAuth\<close>, and the OAuth2 client signs the
  request. That client belongs to \<open>google-auth-library\<close>, which is not among the
  sources: when the token it holds is expiring, it asks for a new one itself before the
  request goes out, and when that refresh fails, the request fails with the refresh
  error and is not sent. \<open>google_authorize\<close> resolves with the client as the request
  leaves it.
\<close>

definition google_authorize :: "env \<Rightarrow> Credential \<Rightarrow> AuthCredentials \<Rightarrow> AuthCredentials promise" where
  "google_authorize e credential client =
     (if \<not> isTokenExpiring (google e) client then resolve client
      else
        andThen (emit (TokenRefresh credential))
          (\<lambda>_. case refreshToken (google e) (refresh_token client) of
             Inl err \<Rightarrow> reject err
           | Inr (token, expiry) \<Rightarrow>
               resolve (client\<lparr>access_token := token, expiry_date := expiry\<rparr>)))"

text \<open>
  \<open>o365Auth(credential).getToken()\<close>. It resolves with the access token; the second
  component is \<open>o365AuthCredentials\<close> as the call leaves it, which a later \<open>getToken\<close>
  of the same adapter reads.
\<close>

definition o365_isExpired :: "env \<Rightarrow> int \<Rightarrow> bool" where
  "o365_isExpired e expiryDate = (expiryDate < round_seconds (now (ext e)))"

definition o365_refreshAccessToken ::
  "env \<Rightarrow> Credential \<Rightarrow> AuthCredentials \<Rightarrow> (string \<times> AuthCredentials) promise" where
  "o365_refreshAccessToken e credential o365AuthCredentials =
     andThen (emit (TokenRefresh credential))
       (\<lambda>_. andThen (fetch_then (post_token (graph e) (refresh_token o365AuthCredentials)) handleErrorsJson)
          (\<lambda>(token, expires_in).
             (let refreshed = o365AuthCredentials
                    \<lparr>access_token := token,
                     expiry_date := round_seconds (now (ext e)) + expires_in\<rparr>
              in andThen (prisma_credential_update e (cr_id credential) refreshed)
                   (\<lambda>_. resolve (access_token refreshed, refreshed)))))"

definition o365_getToken ::
  "env \<Rightarrow> Credential \<Rightarrow> AuthCredentials \<Rightarrow> (string \<times> AuthCredentials) promise" where
  "o365_getToken e credential o365AuthCredentials =
     (if \<not> o365_isExpired e (expiry_date o365AuthCredentials)
      then resolve (access_token o365AuthCredentials, o365AuthCredentials)
      else o365_refreshAccessToken e credential o365AuthCredentials)"

section \<open>calendarClient: the adapters\<close>

datatype CalendarApiAdapter =
    GoogleCalendar Credential
  | MicrosoftOffice365Calendar Credential
  | CalDavCalendar Credential
  | AppleCalendar Credential

definition calendar_of :: "Credential \<Rightarrow> CalendarApiAdapter option" where
  "calendar_of cred =
     (if cr_type cred = ''google_calendar'' then Some (GoogleCalendar cred)
      else if cr_type cred = ''office365_calendar'' then Some (MicrosoftOffice365Calendar cred)
      else if cr_type cred = ''caldav_calendar'' then Some (CalDavCalendar cred)
      else if cr_type cred = ''apple_calendar'' then Some (AppleCalendar cred)
      else None)"

definition calendars :: "Credential list \<Rightarrow> CalendarApiAdapter list" where
  "calendars withCredentials = List.map_filter calendar_of withCredentials"

definition adapter_credential :: "CalendarApiAdapter \<Rightarrow> Credential" where
  "adapter_credential a =
     (case a of
        GoogleCalendar c \<Rightarrow> c
      | MicrosoftOffice365Calendar c \<Rightarrow> c
      | CalDavCalendar c \<Rightarrow> c
      | AppleCalendar c \<Rightarrow> c)"

definition google_createEvent :: "env \<Rightarrow> Credential \<Rightarrow> CalendarEvent \<Rightarrow> Event promise" where
  "google_createEvent e credential event =
     andThen (google_getToken e credential)
       (\<lambda>myGoogleAuth.
          andThen (google_authorize e credential myGoogleAuth)
            (\<lambda>client.
               case events_insert (google e) client event of
                 Inl err \<Rightarrow> reject err
               | Inr None \<Rightarrow> reject RejectedNull
               | Inr (Some d) \<Rightarrow> resolve d))"

definition google_updateEvent ::
  "env \<Rightarrow> Credential \<Rightarrow> string \<Rightarrow> CalendarEvent \<Rightarrow> UpdatedEvent option promise" where
  "google_updateEvent e credential u event =
     andThen (google_getToken e credential)
       (\<lambda>myGoogleAuth.
          andThen (google_authorize e credential myGoogleAuth)
            (\<lambda>client.
               case events_update (google e) client u event of
                 Inl err \<Rightarrow> reject err
               | Inr d \<Rightarrow> resolve (map_option EventObject d)))"

definition google_deleteEvent :: "env \<Rightarrow> Credential \<Rightarrow> string \<Rightarrow> unit promise" where
  "google_deleteEvent e credential u =
     andThen (google_getToken e credential)
       (\<lambda>myGoogleAuth.
          andThen (google_authorize e credential myGoogleAuth)
            (\<lambda>client.
               case events_delete (google e) client u of
                 Inl err \<Rightarrow> reject err
               | Inr d \<Rightarrow> resolve d))"

definition o365_createEvent :: "env \<Rightarrow> Credential \<Rightarrow> CalendarEvent \<Rightarrow> Event promise" where
  "o365_createEvent e credential event =
     andThen (o365_getToken e credential (cr_key credential))
       (\<lambda>(accessToken, _).
          andThen (fetch_then (post_event (graph e) accessToken event) handleErrorsJson)
            (\<lambda>responseBody. resolve (responseBody\<lparr>disableConfirmationEmail := Some True\<rparr>)))"

definition o365_updateEvent ::
  "env \<Rightarrow> Credential \<Rightarrow> string \<Rightarrow> CalendarEvent \<Rightarrow> UpdatedEvent option promise" where
  "o365_updateEvent e credential u event =
     andThen (o365_getToken e credential (cr_key credential))
       (\<lambda>(accessToken, _).
          andThen (fetch_then (patch_event (graph e) accessToken u event) handleErrorsRaw)
            (\<lambda>text. resolve (Some (EventText text))))"

definition o365_deleteEvent :: "env \<Rightarrow> Credential \<Rightarrow> string \<Rightarrow> unit promise" where
  "o365_deleteEvent e credential u =
     andThen (o365_getToken e credential (cr_key credential))
       (\<lambda>(accessToken, _).
          andThen (fetch_then (delete_event (graph e) accessToken u) handleErrorsRaw)
            (\<lambda>text. resolve ()))"

definition adapter_createEvent :: "env \<Rightarrow> CalendarApiAdapter \<Rightarrow> CalendarEvent \<Rightarrow> Event promise" where
  "adapter_createEvent e a event =
     andThen (emit (AdapterCreateEvent (adapter_credential a) event))
       (\<lambda>_. case a of
          GoogleCalendar c \<Rightarrow> google_createEvent e c event
        | MicrosoftOffice365Calendar c \<Rightarrow> o365_createEvent e c event
        | CalDavCalendar c \<Rightarrow> settled (dav_createEvent (ext e) c event)
        | AppleCalendar c \<Rightarrow> settled (dav_createEvent (ext e) c event))"

definition adapter_updateEvent ::
  "env \<Rightarrow> CalendarApiAdapter \<Rightarrow> string \<Rightarrow> CalendarEvent \<Rightarrow> UpdatedEvent option promise" where
  "adapter_updateEvent e a u event =
     andThen (emit (AdapterUpdateEvent (adapter_credential a) u event))
       (\<lambda>_. case a of
          GoogleCalendar c \<Rightarrow> google_updateEvent e c u event
        | MicrosoftOffice365Calendar c \<Rightarrow> o365_updateEvent e c u event
        | CalDavCalendar c \<Rightarrow> settled (dav_updateEvent (ext e) c u event)
        | AppleCalendar c \<Rightarrow> settled (dav_updateEvent (ext e) c u event))"

definition adapter_deleteEvent :: "env \<Rightarrow> CalendarApiAdapter \<Rightarrow> string \<Rightarrow> unit promise" where
  "adapter_deleteEvent e a u =
     andThen (emit (AdapterDeleteEvent (adapter_credential a) u))
       (\<lambda>_. case a of
          GoogleCalendar c \<Rightarrow> google_deleteEvent e c u
        | MicrosoftOffice365Calendar c \<Rightarrow> o365_deleteEvent e c u
        | CalDavCalendar c \<Rightarrow> settled (dav_deleteEvent (ext e) c u)
        | AppleCalendar c \<Rightarrow> settled (dav_deleteEvent (ext e) c u))"

subsection \<open>Availability\<close>

text \<open>\<open>.filter(Boolean)\<close> on a list of optional strings.\<close>

definition filter_Boolean :: "string option list \<Rightarrow> string list" where
  "filter_Boolean xs =
     List.map_filter (\<lambda>x. case x of None \<Rightarrow> None | Some s \<Rightarrow> if truthy_string s then Some s else None) xs"

definition o365_listCalendars ::
  "env \<Rightarrow> Credential \<Rightarrow> AuthCredentials \<Rightarrow> IntegrationCalendar list promise" where
  "o365_listCalendars e credential o365AuthCredentials =
     andThen (o365_getToken e credential o365AuthCredentials)
       (\<lambda>(accessToken, _).
          andThen (fetch_then (get_calendars (graph e) accessToken) handleErrorsJson)
            (\<lambda>cals. resolve
               (map (\<lambda>cal.
                       \<lparr>externalId = Some (case oc_id cal of None \<Rightarrow> ''No Id'' | Some i \<Rightarrow> i),
                        integration = Some ''office365_calendar'',
                        ic_name = Some (case oc_name cal of None \<Rightarrow> ''No calendar name'' | Some n \<Rightarrow> n),
                        primary = Some (case isDefaultCalendar cal of None \<Rightarrow> False | Some b \<Rightarrow> b)\<rparr>)
                  cals)))"

definition o365_getAvailability ::
  "env \<Rightarrow> Credential \<Rightarrow> string \<Rightarrow> string \<Rightarrow> IntegrationCalendar list \<Rightarrow> BufferedBusyTime list promise" where
  "o365_getAvailability e credential dateFrom dateTo selectedCalendars =
     catch
       (andThen (o365_getToken e credential (cr_key credential))
          (\<lambda>(accessToken, o365AuthCredentials).
             (let selectedCalendarIds =
                    filter_Boolean
                      (map externalId
                         (filter (\<lambda>c. integration c = Some ''office365_calendar'') selectedCalendars))
              in if selectedCalendarIds = [] \<and> selectedCalendars \<noteq> [] then resolve []
                 else
                   andThen
                     (if selectedCalendarIds = []
                      then andThen (o365_listCalendars e credential o365AuthCredentials)
                             (\<lambda>cals. resolve (filter_Boolean (map externalId cals)))
                      else resolve selectedCalendarIds)
                     (\<lambda>ids.
                        andThen (fetch_then (post_batch (graph e) accessToken ids dateFrom dateTo) handleErrorsJson)
                          (\<lambda>responses. resolve
                             (concat
                                (map (map (\<lambda>evt. \<lparr>bt_start = bt_start evt @ ''Z'',
                                                  bt_end = bt_end evt @ ''Z''\<rparr>))
                                   responses)))))))
       (\<lambda>err. reject RejectedEmptyList)"

definition google_getAvailability ::
  "env \<Rightarrow> Credential \<Rightarrow> string \<Rightarrow> string \<Rightarrow> IntegrationCalendar list \<Rightarrow> BufferedBusyTime list promise" where
  "google_getAvailability e credential dateFrom dateTo selectedCalendars =
     andThen (google_getToken e credential)
       (\<lambda>myGoogleAuth.
          (let selectedCalendarIds =
                 map externalId
                   (filter (\<lambda>c. integration c = Some ''google_calendar'') selectedCalendars)
           in if selectedCalendarIds = [] \<and> selectedCalendars \<noteq> [] then resolve []
              else
                andThen
                  (if selectedCalendarIds = []
                   then andThen (google_authorize e credential myGoogleAuth)
                          (\<lambda>client.
                             andThen (settled (calendarList_list (google e) client))
                               (\<lambda>items. resolve
                                  (case items of
                                     None \<Rightarrow> []
                                   | Some cals \<Rightarrow> map Some (filter_Boolean cals),
                                   client)))
                   else resolve (selectedCalendarIds, myGoogleAuth))
                  (\<lambda>(calsIds, listed).
                     andThen (google_authorize e credential listed)
                       (\<lambda>client.
                          case freebusy_query (google e) client dateFrom dateTo calsIds of
                            Inl err \<Rightarrow> reject err
                          | Inr busy \<Rightarrow> resolve (concat busy)))))"

definition adapter_getAvailability ::
  "env \<Rightarrow> CalendarApiAdapter \<Rightarrow> string \<Rightarrow> string \<Rightarrow> IntegrationCalendar list \<Rightarrow> BufferedBusyTime list promise" where
  "adapter_getAvailability e a dateFrom dateTo selectedCalendars =
     andThen (emit (AdapterGetAvailability (adapter_credential a)))
       (\<lambda>_. case a of
          GoogleCalendar c \<Rightarrow> google_getAvailability e c dateFrom dateTo selectedCalendars
        | MicrosoftOffice365Calendar c \<Rightarrow> o365_getAvailability e c dateFrom dateTo selectedCalendars
        | CalDavCalendar c \<Rightarrow> settled (dav_getAvailability (ext e) c dateFrom dateTo selectedCalendars)
        | AppleCalendar c \<Rightarrow> settled (dav_getAvailability (ext e) c dateFrom dateTo selectedCalendars))"

definition getBusyCalendarTimes ::
  "env \<Rightarrow> Credential list \<Rightarrow> string \<Rightarrow> string \<Rightarrow> IntegrationCalendar list \<Rightarrow> BufferedBusyTime list promise" where
  "getBusyCalendarTimes e withCredentials dateFrom dateTo selectedCalendars =
     andThen
       (promise_all
          (map (\<lambda>c. adapter_getAvailability e c dateFrom dateTo selectedCalendars)
             (calendars withCredentials)))
       (\<lambda>rs. resolve (concat rs))"

section \<open>calendarClient: createEvent, updateEvent, deleteEvent\<close>

text \<open>\<open>try { await mail.sendEmail() } catch (e) { console.error(...) }\<close>.\<close>

definition try_sendEmail :: "env \<Rightarrow> mail \<Rightarrow> CalendarEvent \<Rightarrow> unit promise" where
  "try_sendEmail e m event =
     catch
       (andThen (emit (SendEmail m event))
          (\<lambda>_. case sendEmail (ext e) m event of None \<Rightarrow> resolve () | Some err \<Rightarrow> reject err))
       (\<lambda>err. resolve ())"

definition truthy_updated :: "UpdatedEvent option \<Rightarrow> bool" where
  "truthy_updated u =
     (case u of None \<Rightarrow> False | Some (EventObject _) \<Rightarrow> True | Some (EventText t) \<Rightarrow> truthy_string t)"

definition createEvent :: "env \<Rightarrow> Credential \<Rightarrow> bool option \<Rightarrow> EventResult promise" where
  "createEvent e credential noMail =
     andThen get_event
       (\<lambda>calEvent.
          (let u = getUid (ext e) calEvent;
               richEvent = asRichEventPlain (ext e) calEvent
           in case calendars [credential] of
                [] \<Rightarrow> reject (TypeError ''calendars([credential])[0] is undefined'')
              | a # _ \<Rightarrow>
                  andThen
                    (catch (andThen (adapter_createEvent e a richEvent) (\<lambda>r. resolve (Some r, True)))
                           (\<lambda>err. resolve (None, False)))
                    (\<lambda>(creationResult, succ).
                       case creationResult of
                         None \<Rightarrow>
                           resolve \<lparr>er_type = cr_type credential, success = succ, er_uid = u,
                                    createdEvent = None, updatedEvent = None,
                                    er_videoCallData = None\<rparr>
                       | Some created \<Rightarrow>
                           andThen
                             (modify_event
                                (\<lambda>ev. ev\<lparr>additionInformation :=
                                             Some \<lparr>ai_conferenceData = ev_conferenceData created,
                                                   ai_entryPoints = ev_entryPoints created,
                                                   ai_hangoutLink = ev_hangoutLink created\<rparr>\<rparr>))
                             (\<lambda>_. andThen
                                     (if \<not> truthy_opt_bool noMail
                                      then andThen get_event (\<lambda>ev. try_sendEmail e EventOrganizerMail ev)
                                      else resolve ())
                                     (\<lambda>_. resolve
                                        \<lparr>er_type = cr_type credential, success = succ, er_uid = u,
                                         createdEvent = Some created, updatedEvent = None,
                                         er_videoCallData = None\<rparr>)))))"

definition updateEvent ::
  "env \<Rightarrow> Credential \<Rightarrow> bool option \<Rightarrow> string option \<Rightarrow> EventResult promise" where
  "updateEvent e credential noMail bookingRefUid =
     andThen get_event
       (\<lambda>calEvent.
          (let u = getUid (ext e) calEvent;
               richEvent = asRichEventPlain (ext e) calEvent
           in andThen
                (case bookingRefUid of
                   None \<Rightarrow> resolve (None, True)
                 | Some refUid \<Rightarrow>
                     if \<not> truthy_string refUid then resolve (None, True)
                     else
                       (case calendars [credential] of
                          [] \<Rightarrow> reject (TypeError ''calendars([credential])[0] is undefined'')
                        | a # _ \<Rightarrow>
                            catch (andThen (adapter_updateEvent e a refUid richEvent)
                                     (\<lambda>r. resolve (r, True)))
                                  (\<lambda>err. resolve (None, False))))
                (\<lambda>(updatedResult, succ).
                   if \<not> truthy_updated updatedResult
                   then resolve \<lparr>er_type = cr_type credential, success = succ, er_uid = u,
                                 createdEvent = None, updatedEvent = None,
                                 er_videoCallData = None\<rparr>
                   else
                     andThen
                       (if \<not> truthy_opt_bool noMail
                        then try_sendEmail e EventOrganizerRescheduledMail calEvent
                        else resolve ())
                       (\<lambda>_. resolve
                          \<lparr>er_type = cr_type credential, success = succ, er_uid = u,
                           createdEvent = None, updatedEvent = updatedResult,
                           er_videoCallData = None\<rparr>))))"


section \<open>EventManager\<close>

record EventManager =
  calendarCredentials :: "Credential list"
  videoCredentials :: "Credential list"

definition new_EventManager :: "env \<Rightarrow> Credential list \<Rightarrow> EventManager" where
  "new_EventManager e credentials =
     \<lparr>calendarCredentials = filter (\<lambda>cred. endsWith (cr_type cred) ''_calendar'') credentials,
      videoCredentials =
        filter (\<lambda>cred. endsWith (cr_type cred) ''_video'') credentials
        @ (if truthy_opt_string (DAILY_API_KEY (ext e)) then [FAKE_DAILY_CREDENTIAL (ext e)] else [])\<rparr>"

definition createAllCalendarEvents ::
  "env \<Rightarrow> EventManager \<Rightarrow> bool option \<Rightarrow> EventResult list promise" where
  "createAllCalendarEvents e this noMail =
     (case calendarCredentials this of
        [] \<Rightarrow> resolve []
      | firstCalendar # _ \<Rightarrow> andThen (createEvent e firstCalendar noMail) (\<lambda>r. resolve [r]))"

definition getVideoCredential :: "EventManager \<Rightarrow> CalendarEvent \<Rightarrow> Credential option" where
  "getVideoCredential this event =
     (case location event of
        None \<Rightarrow> None
      | Some l \<Rightarrow>
          if \<not> truthy_string l then None
          else (let integrationName = str_replace l ''integrations:'' []
                in find (\<lambda>credential. str_includes (cr_type credential) integrationName)
                     (videoCredentials this)))"

definition createVideoEvent :: "env \<Rightarrow> EventManager \<Rightarrow> EventResult promise" where
  "createVideoEvent e this =
     andThen get_event
       (\<lambda>event.
          case getVideoCredential this event of
            Some credential \<Rightarrow>
              andThen (emit (CreateMeeting credential))
                (\<lambda>_. settled (createMeeting (ext e) credential event))
          | None \<Rightarrow>
              reject (RejectedString ''No suitable credentials given for the requested integration name.''))"

text \<open>The first reference of the booking with the credential's type: \<open>filter(...)[0]\<close>.\<close>

definition first_reference :: "PartialBooking option \<Rightarrow> Credential \<Rightarrow> PartialReference option" where
  "first_reference booking credential =
     (case booking of
        None \<Rightarrow> None
      | Some b \<Rightarrow>
          (case filter (\<lambda>r. ref_type r = cr_type credential) (references b) of
             [] \<Rightarrow> None
           | r # _ \<Rightarrow> Some r))"

definition updateAllCalendarEvents ::
  "env \<Rightarrow> EventManager \<Rightarrow> PartialBooking option \<Rightarrow> bool option \<Rightarrow> EventResult list promise" where
  "updateAllCalendarEvents e this booking noMail =
     mapLimit (calendarCredentials this) 5
       (\<lambda>credential.
          (let bookingRefUid = map_option ref_uid (first_reference booking credential)
           in updateEvent e credential noMail bookingRefUid))"

definition updateVideoEvent ::
  "env \<Rightarrow> EventManager \<Rightarrow> PartialBooking option \<Rightarrow> EventResult promise" where
  "updateVideoEvent e this booking =
     andThen get_event
       (\<lambda>event.
          case getVideoCredential this event of
            Some credential \<Rightarrow>
              (let bookingRef = first_reference booking credential;
                   bookingRefUid = map_option ref_uid bookingRef
               in andThen (emit (UpdateMeeting credential bookingRefUid))
                    (\<lambda>_. andThen (settled (updateMeeting (ext e) credential event bookingRefUid))
                       (\<lambda>returnVal.
                          if er_videoCallData returnVal = None
                          then andThen (settled (bookingReferenceToVideoCallData bookingRef))
                                 (\<lambda>v. resolve (returnVal\<lparr>er_videoCallData := v\<rparr>))
                          else resolve returnVal)))
          | None \<Rightarrow>
              reject (RejectedString ''No suitable credentials given for the requested integration name.''))"

datatype mail_type = New | Reschedule

text \<open>\<open>(eRes.createdEvent || eRes.updatedEvent)?.disableConfirmationEmail\<close>.\<close>

definition disables_confirmation :: "EventResult \<Rightarrow> bool" where
  "disables_confirmation eRes =
     (case createdEvent eRes of
        Some c \<Rightarrow> truthy_opt_bool (disableConfirmationEmail c)
      | None \<Rightarrow>
          (case updatedEvent eRes of
             Some (EventObject u) \<Rightarrow> truthy_opt_bool (disableConfirmationEmail u)
           | Some (EventText t) \<Rightarrow> False
           | None \<Rightarrow> False))"

definition sendAttendeeMail :: "env \<Rightarrow> mail_type \<Rightarrow> EventResult list \<Rightarrow> unit promise" where
  "sendAttendeeMail e ty rs =
     (if rs = [] \<or> \<not> list_ex disables_confirmation rs then
        (let metadata =
               (case rs of
                  [] \<Rightarrow> \<lparr>ai_conferenceData = None, ai_entryPoints = None, ai_hangoutLink = None\<rparr>
                | r # _ \<Rightarrow>
                    \<lparr>ai_conferenceData = Option.bind (createdEvent r) ev_conferenceData,
                     ai_entryPoints = Option.bind (createdEvent r) ev_entryPoints,
                     ai_hangoutLink = Option.bind (createdEvent r) ev_hangoutLink\<rparr>)
         in andThen (modify_event (\<lambda>ev. ev\<lparr>additionInformation := Some metadata\<rparr>))
              (\<lambda>_. andThen get_event
                 (\<lambda>event.
                    try_sendEmail e
                      (case ty of Reschedule \<Rightarrow> EventAttendeeRescheduledMail | New \<Rightarrow> EventAttendeeMail)
                      event)))
      else resolve ())"

text \<open>The reference that \<open>create\<close> builds for one result.\<close>

definition reference_of_result :: "EventResult \<Rightarrow> PartialReference" where
  "reference_of_result result =
     (let u = (case createdEvent result of
                 None \<Rightarrow> []
               | Some c \<Rightarrow> if er_type result = ''daily_video'' then ev_name c else ev_id c)
      in \<lparr>ref_id = None,
          ref_type = er_type result,
          ref_uid = u,
          meetingId = (case er_videoCallData result of None \<Rightarrow> Undefined | Some v \<Rightarrow> Val (vcd_id v)),
          meetingPassword = (case er_videoCallData result of None \<Rightarrow> Undefined | Some v \<Rightarrow> Val (password v)),
          meetingUrl = (case er_videoCallData result of None \<Rightarrow> Undefined | Some v \<Rightarrow> Val (url v))\<rparr>)"

definition create :: "env \<Rightarrow> EventManager \<Rightarrow> CreateUpdateResult promise" where
  "create e this =
     andThen (modify_event (processLocation (locationType (ext e)) (uuidv5 (ext e))))
       (\<lambda>_. andThen get_event
          (\<lambda>evt.
             (let isDedicated = isDedicated_of (location evt)
              in andThen (createAllCalendarEvents e this isDedicated)
                   (\<lambda>rs. andThen
                      (if truthy_opt_bool isDedicated
                       then andThen (createVideoEvent e this)
                              (\<lambda>result.
                                 andThen
                                   (case er_videoCallData result of
                                      Some v \<Rightarrow> modify_event (\<lambda>ev. ev\<lparr>videoCallData := Some v\<rparr>)
                                    | None \<Rightarrow> resolve ())
                                   (\<lambda>_. resolve (rs @ [result])))
                       else andThen (sendAttendeeMail e New rs) (\<lambda>_. resolve rs))
                      (\<lambda>rs'. resolve
                         \<lparr>results = rs',
                          referencesToCreate = map reference_of_result rs'\<rparr>)))))"

definition prisma_delete :: "effect \<Rightarrow> rejection option \<Rightarrow> unit promise" where
  "prisma_delete x r =
     andThen (emit x) (\<lambda>_. case r of None \<Rightarrow> resolve () | Some err \<Rightarrow> reject err)"

definition update :: "env \<Rightarrow> EventManager \<Rightarrow> string \<Rightarrow> CreateUpdateResult promise" where
  "update e this rescheduleUid =
     andThen (modify_event (processLocation (locationType (ext e)) (uuidv5 (ext e))))
       (\<lambda>_. andThen get_event
          (\<lambda>evt.
             if \<not> truthy_string rescheduleUid
             then reject (Error ''You called eventManager.update without an `rescheduleUid`. This should never happen.'')
             else
               andThen (emit (BookingFindFirst rescheduleUid))
                 (\<lambda>_. andThen (settled (booking_findFirst (prisma e) rescheduleUid))
                    (\<lambda>found.
                       case found of
                         None \<Rightarrow> reject (Error ''booking not found'')
                       | Some booking \<Rightarrow>
                           (let isDedicated = isDedicated_of (location evt)
                            in andThen (updateAllCalendarEvents e this (Some booking) isDedicated)
                                 (\<lambda>rs. andThen
                                    (if truthy_opt_bool isDedicated
                                     then andThen (updateVideoEvent e this (Some booking))
                                            (\<lambda>result.
                                               andThen
                                                 (case er_videoCallData result of
                                                    Some v \<Rightarrow> modify_event (\<lambda>ev. ev\<lparr>videoCallData := Some v\<rparr>)
                                                  | None \<Rightarrow> resolve ())
                                                 (\<lambda>_. resolve (rs @ [result])))
                                     else andThen (sendAttendeeMail e Reschedule rs) (\<lambda>_. resolve rs))
                                    (\<lambda>rs'. andThen
                                       (promise_all
                                          [prisma_delete (BookingReferenceDeleteMany (bk_id booking))
                                             (bookingReference_deleteMany (prisma e) (bk_id booking)),
                                           prisma_delete (AttendeeDeleteMany (bk_id booking))
                                             (attendee_deleteMany (prisma e) (bk_id booking)),
                                           prisma_delete (BookingDelete (bk_id booking))
                                             (booking_delete (prisma e) (bk_id booking))])
                                       (\<lambda>_. resolve
                                          \<lparr>results = rs',
                                           referencesToCreate = references booking\<rparr>))))))))"

section \<open>Reading the effects\<close>

text \<open>The credentials whose calendar adapter was asked to create or update an entry, in order.\<close>

definition adapter_calls :: "effect list \<Rightarrow> Credential list" where
  "adapter_calls xs =
     List.map_filter
       (\<lambda>x. case x of
          AdapterCreateEvent c _ \<Rightarrow> Some c
        | AdapterUpdateEvent c _ _ \<Rightarrow> Some c
        | _ \<Rightarrow> None)
       xs"

text \<open>A promise that asks no calendar adapter to create or update anything.\<close>

definition quiet :: "'a promise \<Rightarrow> bool" where
  "quiet m = (\<forall>w. adapter_calls (effects (snd (m w))) = adapter_calls (effects w))"

section \<open>Concrete requests\<close>

text \<open>
  An environment in which every collaborator answers (the Google service only to a
  token that has not expired), and the variations of it that the concrete cases below
  run in.
\<close>

definition example_locations :: LocationType where
  "example_locations =
     \<lparr>GoogleMeet = ''integrations:google:meet'', Zoom = ''integrations:zoom'',
      Daily = ''integrations:daily''\<rparr>"

definition example_key :: AuthCredentials where
  "example_key = \<lparr>expiry_date = 1700003600, access_token = ''token-1'', refresh_token = ''refresh-1''\<rparr>"

definition expired_key :: AuthCredentials where
  "expired_key = \<lparr>expiry_date = 1600000000, access_token = ''token-0'', refresh_token = ''refresh-0''\<rparr>"

definition google_credential :: Credential where
  "google_credential = \<lparr>cr_id = 1, cr_type = ''google_calendar'', cr_key = example_key\<rparr>"

definition office365_credential :: Credential where
  "office365_credential = \<lparr>cr_id = 2, cr_type = ''office365_calendar'', cr_key = example_key\<rparr>"

definition office365_expired :: Credential where
  "office365_expired = \<lparr>cr_id = 3, cr_type = ''office365_calendar'', cr_key = expired_key\<rparr>"

definition google_expiring :: Credential where
  "google_expiring = \<lparr>cr_id = 4, cr_type = ''google_calendar'', cr_key = expired_key\<rparr>"

definition zoom_credential :: Credential where
  "zoom_credential = \<lparr>cr_id = 5, cr_type = ''zoom_video'', cr_key = example_key\<rparr>"

definition example_person :: Person where
  "example_person = \<lparr>p_name = ''Ada'', email = ''ada@example.com'', timeZone = ''Europe/London''\<rparr>"

definition example_event :: CalendarEvent where
  "example_event =
     \<lparr>ce_type = ''30min'', title = ''Review'', startTime = ''2021-11-01T10:00:00Z'',
      endTime = ''2021-11-01T10:30:00Z'', description = None, team = None,
      location = Some ''Room 4'', organizer = example_person, attendees = [example_person],
      conferenceData = None, additionInformation = None, uid = None, videoCallData = None\<rparr>"

definition zoom_event :: CalendarEvent where
  "zoom_event = example_event\<lparr>location := Some ''integrations:zoom''\<rparr>"

definition provider_event :: Event where
  "provider_event =
     \<lparr>ev_name = ''review'', ev_id = ''evt-77'', disableConfirmationEmail = None,
      ev_hangoutLink = None, ev_conferenceData = None, ev_entryPoints = None\<rparr>"

definition example_booking :: PartialBooking where
  "example_booking =
     \<lparr>bk_id = 9,
      references =
        [\<lparr>ref_id = Some 1, ref_type = ''google_calendar'', ref_uid = ''g-1'',
          meetingId = Null, meetingPassword = Null, meetingUrl = Null\<rparr>,
         \<lparr>ref_id = Some 2, ref_type = ''office365_calendar'', ref_uid = ''o-1'',
          meetingId = Null, meetingPassword = Null, meetingUrl = Null\<rparr>]\<rparr>"

definition example_google :: google_api where
  "example_google =
     \<lparr>isTokenExpiring = (\<lambda>k. expiry_date k < 1700000000),
      refreshToken = (\<lambda>t. Inr (''token-2'', 1700007200)),
      events_insert =
        (\<lambda>k ev. if expiry_date k < 1700000000 then Inl (Error ''401'') else Inr (Some provider_event)),
      events_update =
        (\<lambda>k u ev. if expiry_date k < 1700000000 then Inl (Error ''401'') else Inr (Some provider_event)),
      events_delete =
        (\<lambda>k u. if expiry_date k < 1700000000 then Inl (Error ''401'') else Inr ()),
      calendarList_list =
        (\<lambda>k. if expiry_date k < 1700000000 then Inl (Error ''401'') else Inr (Some [Some ''primary''])),
      freebusy_query =
        (\<lambda>k f t ids. if expiry_date k < 1700000000 then Inl (Error ''401'')
                     else Inr [[\<lparr>bt_start = f, bt_end = t\<rparr>]])\<rparr>"

definition example_graph :: graph_api where
  "example_graph =
     \<lparr>post_token = (\<lambda>t. Inr \<lparr>ok = True, statusText = ''OK'', body = (''token-3'', 3600)\<rparr>),
      post_event = (\<lambda>t ev. Inr \<lparr>ok = True, statusText = ''Created'', body = provider_event\<rparr>),
      patch_event = (\<lambda>t u ev. Inr \<lparr>ok = True, statusText = ''OK'', body = ''{}''\<rparr>),
      delete_event = (\<lambda>t u. Inr \<lparr>ok = True, statusText = ''No Content'', body = []\<rparr>),
      get_calendars = (\<lambda>t. Inr \<lparr>ok = True, statusText = ''OK'', body = []\<rparr>),
      post_batch = (\<lambda>t ids f u. Inr \<lparr>ok = True, statusText = ''OK'', body = []\<rparr>)\<rparr>"

definition example_prisma :: prisma_api where
  "example_prisma =
     \<lparr>credential_update = (\<lambda>i k. None),
      booking_findFirst = (\<lambda>u. Inr (Some example_booking)),
      bookingReference_deleteMany = (\<lambda>i. None),
      attendee_deleteMany = (\<lambda>i. None),
      booking_delete = (\<lambda>i. None)\<rparr>"

definition example_ext :: collaborators where
  "example_ext =
     \<lparr>dav_createEvent = (\<lambda>c ev. Inr provider_event),
      dav_updateEvent = (\<lambda>c u ev. Inr (Some (EventObject provider_event))),
      dav_deleteEvent = (\<lambda>c u. Inr ()),
      dav_getAvailability = (\<lambda>c f t sel. Inr []),
      createMeeting =
        (\<lambda>c ev. Inr \<lparr>er_type = cr_type c, success = True, er_uid = ''uid-1'',
                       createdEvent = Some provider_event, updatedEvent = None,
                       er_videoCallData =
                         Some \<lparr>vcd_type = cr_type c, vcd_id = ''evt-77'', password = ''pw'',
                               url = ''https://zoom.us/j/77''\<rparr>\<rparr>),
      updateMeeting =
        (\<lambda>c ev u. Inr \<lparr>er_type = cr_type c, success = True, er_uid = ''uid-1'',
                         createdEvent = None, updatedEvent = Some (EventText ''''),
                         er_videoCallData = None\<rparr>),
      getUid = (\<lambda>ev. ''uid-1''),
      asRichEventPlain = (\<lambda>ev. ev),
      sendEmail = (\<lambda>m ev. None),
      uuidv5 = (\<lambda>s. ''urn:uuid:'' @ s),
      locationType = example_locations,
      FAKE_DAILY_CREDENTIAL = \<lparr>cr_id = 0, cr_type = ''daily_video'', cr_key = example_key\<rparr>,
      DAILY_API_KEY = None,
      now = 1700000000000\<rparr>"

definition example_env :: env where
  "example_env =
     \<lparr>google = example_google, graph = example_graph, prisma = example_prisma, ext = example_ext\<rparr>"

text \<open>The Google calendar service refuses every insert.\<close>

definition env_insert_fails :: env where
  "env_insert_fails =
     example_env\<lparr>google := example_google\<lparr>events_insert := (\<lambda>k ev. Inl (Error ''503''))\<rparr>\<rparr>"

text \<open>Every token refresh fails, at Google and at Microsoft.\<close>

definition env_refresh_fails :: env where
  "env_refresh_fails =
     example_env
       \<lparr>google := example_google\<lparr>refreshToken := (\<lambda>t. Inl (Error ''invalid_grant''))\<rparr>,
        graph := example_graph\<lparr>post_token := (\<lambda>t. Inl (Error ''network''))\<rparr>\<rparr>"

text \<open>The Google calendar service refuses every free/busy query.\<close>

definition env_freebusy_fails :: env where
  "env_freebusy_fails =
     example_env\<lparr>google := example_google\<lparr>freebusy_query := (\<lambda>k f t ids. Inl (Error ''503''))\<rparr>\<rparr>"

definition world_of :: "CalendarEvent \<Rightarrow> world" where
  "world_of ev = \<lparr>the_event = ev, effects = []\<rparr>"

section \<open>How promises run\<close>

lemma andThen_apply:
  "andThen m f w = (case m w of (Inl e, w') \<Rightarrow> (Inl e, w') | (Inr a, w') \<Rightarrow> f a w')"
  by (simp add: andThen_def)

lemma catch_apply:
  "catch m h w = (case m w of (Inl e, w') \<Rightarrow> h e w' | (Inr a, w') \<Rightarrow> (Inr a, w'))"
  by (simp add: catch_def)

lemma resolve_apply: "resolve a w = (Inr a, w)"
  by (simp add: resolve_def)

lemma reject_apply: "reject e w = (Inl e, w)"
  by (simp add: reject_def)

lemma settled_apply: "settled r w = (r, w)"
  by (simp add: settled_def)

lemma emit_apply: "emit x w = (Inr (), w\<lparr>effects := effects w @ [x]\<rparr>)"
  by (simp add: emit_def)

lemma get_event_apply: "get_event w = (Inr (the_event w), w)"
  by (simp add: get_event_def)

lemma modify_event_apply: "modify_event f w = (Inr (), w\<lparr>the_event := f (the_event w)\<rparr>)"
  by (simp add: modify_event_def)

lemmas promise_simps =
  andThen_apply catch_apply resolve_apply reject_apply settled_apply emit_apply
  get_event_apply modify_event_apply

text \<open>A mail is attempted and its failure is swallowed: the caller never sees it.\<close>

lemma try_sendEmail_apply:
  "try_sendEmail e m event w = (Inr (), w\<lparr>effects := effects w @ [SendEmail m event]\<rparr>)"
  by (simp add: try_sendEmail_def promise_simps split: option.splits)

section \<open>The dedicated-integration predicate\<close>

text \<open>
  Claim C7. The dedicated-integration predicate is true exactly for the locations
  \<open>"integrations:zoom"\<close> and \<open>"integrations:daily"\<close> and false for every other
  value, the absent location included. So is the decision of \<open>create\<close> and \<open>update\<close>,
  which do not call the predicate for an absent (or empty) location and decide \<open>null\<close>
  there: they treat it as false.
\<close>

theorem C7_isDedicatedIntegration_exact:
  "isDedicatedIntegration l = (l = Some ''integrations:zoom'' \<or> l = Some ''integrations:daily'')
   \<and> \<not> isDedicatedIntegration None
   \<and> truthy_opt_bool (isDedicated_of l)
       = (l = Some ''integrations:zoom'' \<or> l = Some ''integrations:daily'')
   \<and> \<not> truthy_opt_bool (isDedicated_of None)"
  by (auto simp: isDedicatedIntegration_def isDedicated_of_def truthy_opt_bool_def
      truthy_opt_string_def truthy_string_def)

section \<open>Location enrichment\<close>

lemma merge_prop_idem: "merge_prop (merge_prop d s) s = merge_prop d s"
  by (simp add: merge_prop_def split: option.splits)

lemma merge_prop_self: "merge_prop s s = s"
  by (simp add: merge_prop_def split: option.splits)

lemma merge_createRequest_self: "merge_createRequest s s = s"
  by (simp add: merge_createRequest_def merge_prop_self)

lemma merge_createRequest_idem:
  "merge_createRequest (merge_createRequest d s) s = merge_createRequest d s"
  by (simp add: merge_createRequest_def merge_prop_idem)

lemma merge_conferenceData_idem:
  "merge_conferenceData (Some (merge_conferenceData d s)) s = merge_conferenceData d s"
  by (cases d)
    (simp_all add: merge_conferenceData_def merge_createRequest_self merge_createRequest_idem)

lemma merge_idem: "merge (merge event obj) obj = merge event obj"
  by (cases obj) (simp_all add: merge_def merge_conferenceData_idem)

lemma location_merge: "location (merge event (Some r)) = Some (lr_location r)"
  by (simp add: merge_def)

lemma location_processLocation: "location (processLocation lt u ev) = location ev"
  by (auto simp: processLocation_def merge_def getLocationRequestFromIntegration_def Let_def
      split: option.splits)

text \<open>
  Claim C8. For every event whose location is a recognized integration sentinel,
  \<open>processLocation\<close> is idempotent: applied twice it yields the same event as applied
  once, and the conference-request id is in both cases the identifier derived from the
  location string.
\<close>

theorem C8_processLocation_idempotent:
  assumes "location event = Some l" and "recognized lt l"
  shows "processLocation lt u (processLocation lt u event) = processLocation lt u event
       \<and> requestId_of (processLocation lt u event) = Some (u l)
       \<and> requestId_of (processLocation lt u (processLocation lt u event)) = Some (u l)"
proof -
  from assms(2) have inc: "str_includes l ''integration''"
    and mem: "l = GoogleMeet lt \<or> l = Zoom lt \<or> l = Daily lt"
    by (simp_all add: recognized_def)
  define r where "r = \<lparr>lr_conferenceData = \<lparr>createRequest =
    \<lparr>requestId = Some (u l), conferenceSolutionKey = None, status = None\<rparr>\<rparr>, lr_location = l\<rparr>"
  have g: "getLocationRequestFromIntegration lt u l = Some r"
    using mem by (simp add: getLocationRequestFromIntegration_def r_def Let_def)
  have once: "processLocation lt u event = merge event (Some r)"
    using assms(1) inc g by (simp add: processLocation_def)
  have loc: "location (merge event (Some r)) = Some l"
    by (simp add: location_merge r_def)
  have twice: "processLocation lt u (merge event (Some r)) = merge (merge event (Some r)) (Some r)"
    using loc inc g by (simp add: processLocation_def)
  have rid: "requestId_of (merge event (Some r)) = Some (u l)"
    by (simp add: requestId_of_def merge_def merge_conferenceData_def merge_createRequest_def
        merge_prop_def r_def split: option.splits)
  show ?thesis
    by (simp add: once twice merge_idem rid)
qed

theorem C8_processLocation_idempotent_witness:
  "location zoom_event = Some ''integrations:zoom''
   \<and> recognized example_locations ''integrations:zoom''
   \<and> processLocation example_locations (uuidv5 example_ext)
        (processLocation example_locations (uuidv5 example_ext) zoom_event)
      = processLocation example_locations (uuidv5 example_ext) zoom_event
   \<and> requestId_of (processLocation example_locations (uuidv5 example_ext) zoom_event)
      = Some ''urn:uuid:integrations:zoom''"
proof -
  have l: "location zoom_event = Some ''integrations:zoom''"
    by (simp add: zoom_event_def)
  have r: "recognized example_locations ''integrations:zoom''"
    by (simp add: recognized_def example_locations_def startsWith_def)
  have u: "uuidv5 example_ext ''integrations:zoom'' = ''urn:uuid:integrations:zoom''"
    by (simp add: example_ext_def)
  show ?thesis
    using C8_processLocation_idempotent [OF l r, of "uuidv5 example_ext"] l r u by simp
qed

section \<open>Reconstructing video-call data from a stored reference\<close>

text \<open>
  Claim C2. On an update whose provider response carries no video-call data, the data
  is rebuilt from the stored reference, and an incomplete \<open>zoom_video\<close> reference is
  meant to give no data at all. The completeness test only looks for \<open>undefined\<close>:
  a reference read back from the database carries \<open>null\<close> for a missing column, passes
  the test, and the result is a partially filled object with an empty password.
\<close>

theorem C2_null_password_gives_partial_data:
  "bookingReferenceToVideoCallData
     (Some \<lparr>ref_id = Some 1, ref_type = ''zoom_video'', ref_uid = ''123'',
            meetingId = Val ''123'', meetingPassword = Null,
            meetingUrl = Val ''https://zoom.us/j/123''\<rparr>)
   = Inr (Some \<lparr>vcd_type = ''zoom_video'', vcd_id = ''123'', password = [],
                 url = ''https://zoom.us/j/123''\<rparr>)"
  by (simp add: bookingReferenceToVideoCallData_def coalesce_def)

text \<open>With the password \<open>undefined\<close> instead, the same reference gives no data.\<close>

lemma undefined_password_gives_no_data:
  "bookingReferenceToVideoCallData
     (Some \<lparr>ref_id = Some 1, ref_type = ''zoom_video'', ref_uid = ''123'',
            meetingId = Val ''123'', meetingPassword = Undefined,
            meetingUrl = Val ''https://zoom.us/j/123''\<rparr>)
   = Inr None"
  by (simp add: bookingReferenceToVideoCallData_def)

section \<open>Calendar dispatch without a calendar credential\<close>

lemma no_calendar_credentials:
  "\<forall>c \<in> set creds. \<not> endsWith (cr_type c) ''_calendar'' \<Longrightarrow>
   calendarCredentials (new_EventManager e creds) = []"
  by (simp add: new_EventManager_def)

text \<open>
  Claim C9. For every credential set with no calendar credential,
  \<open>createAllCalendarEvents\<close> resolves with the empty result list; it raises nothing
  and has no effect.
\<close>

theorem C9_no_calendar_credential_no_results:
  assumes "\<forall>c \<in> set creds. \<not> endsWith (cr_type c) ''_calendar''"
  shows "createAllCalendarEvents e (new_EventManager e creds) noMail w = (Inr [], w)"
  by (simp add: createAllCalendarEvents_def no_calendar_credentials [OF assms] resolve_apply)

theorem C9_no_calendar_credential_no_results_witness:
  "\<not> endsWith (cr_type zoom_credential) ''_calendar''
   \<and> createAllCalendarEvents example_env (new_EventManager example_env [zoom_credential]) None
        (world_of example_event)
      = (Inr [], world_of example_event)"
proof -
  have h: "\<forall>c \<in> set [zoom_credential]. \<not> endsWith (cr_type c) ''_calendar''"
    by (simp add: zoom_credential_def endsWith_def)
  show ?thesis
    using C9_no_calendar_credential_no_results [OF h, of example_env None "world_of example_event"] h
    by simp
qed

lemma sendAttendeeMail_empty:
  "sendAttendeeMail e ty [] w =
     (Inr (),
      w\<lparr>the_event := (the_event w)\<lparr>additionInformation :=
           Some \<lparr>ai_conferenceData = None, ai_entryPoints = None, ai_hangoutLink = None\<rparr>\<rparr>,
        effects := effects w @
          [SendEmail (case ty of Reschedule \<Rightarrow> EventAttendeeRescheduledMail | New \<Rightarrow> EventAttendeeMail)
             ((the_event w)\<lparr>additionInformation :=
                Some \<lparr>ai_conferenceData = None, ai_entryPoints = None, ai_hangoutLink = None\<rparr>\<rparr>)]\<rparr>)"
  by (simp add: sendAttendeeMail_def promise_simps try_sendEmail_apply)

text \<open>
  Claim C10. For every create call whose location is not a dedicated integration and
  whose credential set has no calendar credential, the results (and the references)
  are empty and the attendee mail for a new booking is still attempted: it is the one
  effect of the call.
\<close>

theorem C10_attendee_mail_on_empty_results:
  assumes nocal: "\<forall>c \<in> set creds. \<not> endsWith (cr_type c) ''_calendar''"
    and nd: "\<not> truthy_opt_bool (isDedicated_of (location (the_event w)))"
  shows "fst (create e (new_EventManager e creds) w) = Inr \<lparr>results = [], referencesToCreate = []\<rparr>
       \<and> effects (snd (create e (new_EventManager e creds) w))
           = effects w @ [SendEmail EventAttendeeMail (the_event (snd (create e (new_EventManager e creds) w)))]"
  using nd
  by (simp add: create_def promise_simps Let_def location_processLocation
      createAllCalendarEvents_def no_calendar_credentials [OF nocal] sendAttendeeMail_empty)

theorem C10_attendee_mail_on_empty_results_witness:
  "\<not> endsWith (cr_type zoom_credential) ''_calendar''
   \<and> \<not> truthy_opt_bool (isDedicated_of (location (the_event (world_of example_event))))
   \<and> fst (create example_env (new_EventManager example_env [zoom_credential]) (world_of example_event))
      = Inr \<lparr>results = [], referencesToCreate = []\<rparr>
   \<and> effects (snd (create example_env (new_EventManager example_env [zoom_credential])
                     (world_of example_event)))
      = [SendEmail EventAttendeeMail
           (the_event (snd (create example_env (new_EventManager example_env [zoom_credential])
                              (world_of example_event))))]"
proof -
  have h: "\<forall>c \<in> set [zoom_credential]. \<not> endsWith (cr_type c) ''_calendar''"
    by (simp add: zoom_credential_def endsWith_def)
  have d: "\<not> truthy_opt_bool (isDedicated_of (location (the_event (world_of example_event))))"
    by (simp add: world_of_def example_event_def isDedicated_of_def truthy_string_def
        truthy_opt_string_def isDedicatedIntegration_def truthy_opt_bool_def)
  have w: "effects (world_of example_event) = []"
    by (simp add: world_of_def)
  show ?thesis
    using C10_attendee_mail_on_empty_results [OF h d, of example_env] h d w by simp
qed

section \<open>Evaluating the concrete requests\<close>

lemmas example_defs =
  example_env_def example_ext_def example_google_def example_graph_def example_prisma_def
  example_key_def expired_key_def google_credential_def office365_credential_def
  office365_expired_def google_expiring_def zoom_credential_def world_of_def
  env_insert_fails_def env_refresh_fails_def env_freebusy_fails_def example_locations_def
  example_booking_def

lemmas adapter_defs =
  calendars_def calendar_of_def adapter_credential_def adapter_createEvent_def
  adapter_updateEvent_def adapter_deleteEvent_def google_createEvent_def google_updateEvent_def
  google_deleteEvent_def o365_createEvent_def o365_updateEvent_def o365_deleteEvent_def
  google_getToken_def google_refreshAccessToken_def google_authorize_def o365_getToken_def
  o365_refreshAccessToken_def
  o365_isExpired_def round_seconds_def fetch_then_def handleErrorsJson_def handleErrorsRaw_def
  prisma_credential_update_def List.map_filter_simps

lemmas manager_defs =
  create_def update_def createAllCalendarEvents_def updateAllCalendarEvents_def
  new_EventManager_def createEvent_def updateEvent_def createVideoEvent_def updateVideoEvent_def
  getVideoCredential_def first_reference_def sendAttendeeMail_def disables_confirmation_def
  reference_of_result_def processLocation_def getLocationRequestFromIntegration_def merge_def
  merge_conferenceData_def prisma_delete_def
  startsWith_def endsWith_def isDedicated_of_def isDedicatedIntegration_def
  truthy_opt_bool_def truthy_string_def truthy_opt_string_def truthy_updated_def
  example_event_def zoom_event_def Let_def

lemma eval_createEvent_google:
  "fst (createEvent example_env google_credential None (world_of example_event))
   = Inr \<lparr>er_type = ''google_calendar'', success = True, er_uid = ''uid-1'',
          createdEvent = Some provider_event, updatedEvent = None, er_videoCallData = None\<rparr>"
  by (simp add: createEvent_def promise_simps Let_def try_sendEmail_apply truthy_opt_bool_def
      adapter_defs example_defs)

lemma eval_updateEvent_refresh_fails:
  "fst (updateEvent env_refresh_fails office365_expired None (Some ''o-1'') (world_of example_event))
   = Inr \<lparr>er_type = ''office365_calendar'', success = False, er_uid = ''uid-1'',
          createdEvent = None, updatedEvent = None, er_videoCallData = None\<rparr>"
  by (simp add: updateEvent_def promise_simps Let_def try_sendEmail_apply truthy_opt_bool_def
      truthy_string_def truthy_updated_def adapter_defs example_defs)

lemma eval_updateEvent_no_reference:
  "fst (updateEvent example_env google_credential None None (world_of example_event))
   = Inr \<lparr>er_type = ''google_calendar'', success = True, er_uid = ''uid-1'',
          createdEvent = None, updatedEvent = None, er_videoCallData = None\<rparr>"
  by (simp add: updateEvent_def promise_simps Let_def truthy_updated_def example_defs)

lemma eval_create_insert_fails:
  "fst (create env_insert_fails (new_EventManager env_insert_fails [google_credential])
          (world_of example_event))
   = Inr \<lparr>results =
            [\<lparr>er_type = ''google_calendar'', success = False, er_uid = ''uid-1'',
              createdEvent = None, updatedEvent = None, er_videoCallData = None\<rparr>],
          referencesToCreate =
            [\<lparr>ref_id = None, ref_type = ''google_calendar'', ref_uid = [],
              meetingId = Undefined, meetingPassword = Undefined, meetingUrl = Undefined\<rparr>]\<rparr>"
  by (simp add: manager_defs promise_simps try_sendEmail_apply adapter_defs example_defs)

lemma eval_create_zoom:
  "fst (create example_env (new_EventManager example_env [google_credential, zoom_credential])
          (world_of zoom_event))
   = Inr \<lparr>results =
            [\<lparr>er_type = ''google_calendar'', success = True, er_uid = ''uid-1'',
              createdEvent = Some provider_event, updatedEvent = None, er_videoCallData = None\<rparr>,
             \<lparr>er_type = ''zoom_video'', success = True, er_uid = ''uid-1'',
              createdEvent = Some provider_event, updatedEvent = None,
              er_videoCallData =
                Some \<lparr>vcd_type = ''zoom_video'', vcd_id = ''evt-77'', password = ''pw'',
                      url = ''https://zoom.us/j/77''\<rparr>\<rparr>],
          referencesToCreate =
            [\<lparr>ref_id = None, ref_type = ''google_calendar'', ref_uid = ''evt-77'',
              meetingId = Undefined, meetingPassword = Undefined, meetingUrl = Undefined\<rparr>,
             \<lparr>ref_id = None, ref_type = ''zoom_video'', ref_uid = ''evt-77'',
              meetingId = Val ''evt-77'', meetingPassword = Val ''pw'',
              meetingUrl = Val ''https://zoom.us/j/77''\<rparr>]\<rparr>"
  by (simp add: manager_defs promise_simps try_sendEmail_apply adapter_defs example_defs
      provider_event_def)

section \<open>The references that create returns\<close>

lemma create_references:
  assumes "create e this w = (Inr r, w')"
  shows "referencesToCreate r = map reference_of_result (results r)"
  using assms
  by (auto simp: create_def promise_simps Let_def
      split: prod.splits sum.splits option.splits if_splits)

text \<open>
  Claim C1, as amended. For every create call that returns, \<open>referencesToCreate\<close> holds
  exactly one reference per \<open>EventResult\<close> of \<open>results\<close>, failed results included, in
  the same order. Each reference has the provider type of its result; its uid is the
  identifier of the result's created event (the \<open>name\<close> for a \<open>daily_video\<close> result,
  the \<open>id\<close> otherwise) and the empty string when the result has no created event.
\<close>

theorem C1_one_reference_per_result:
  assumes "fst (create e this w) = Inr r"
  shows "map ref_type (referencesToCreate r) = map er_type (results r)
       \<and> map ref_uid (referencesToCreate r)
         = map (\<lambda>x. case createdEvent x of
                       None \<Rightarrow> []
                     | Some c \<Rightarrow> if er_type x = ''daily_video'' then ev_name c else ev_id c)
             (results r)"
proof -
  from assms have "create e this w = (Inr r, snd (create e this w))"
    by (simp add: prod_eq_iff)
  then have "referencesToCreate r = map reference_of_result (results r)"
    by (rule create_references)
  then show ?thesis
    by (simp add: reference_of_result_def Let_def comp_def)
qed

theorem C1_one_reference_per_result_witness:
  "\<exists>r. fst (create example_env (new_EventManager example_env [google_credential, zoom_credential])
              (world_of zoom_event)) = Inr r
      \<and> map er_type (results r) = [''google_calendar'', ''zoom_video'']
      \<and> map ref_type (referencesToCreate r) = map er_type (results r)
      \<and> map ref_uid (referencesToCreate r) = [''evt-77'', ''evt-77'']"
  using C1_one_reference_per_result [OF eval_create_zoom] eval_create_zoom
  by (simp add: provider_event_def)

text \<open>
  The calendar provider refuses the insert: the one result has failed, and there is a
  reference for it all the same, with an empty uid.
\<close>

theorem C1_reference_for_failed_result:
  "fst (create env_insert_fails (new_EventManager env_insert_fails [google_credential])
          (world_of example_event))
   = Inr \<lparr>results =
            [\<lparr>er_type = ''google_calendar'', success = False, er_uid = ''uid-1'',
              createdEvent = None, updatedEvent = None, er_videoCallData = None\<rparr>],
          referencesToCreate =
            [\<lparr>ref_id = None, ref_type = ''google_calendar'', ref_uid = [],
              meetingId = Undefined, meetingPassword = Undefined, meetingUrl = Undefined\<rparr>]\<rparr>"
  by (rule eval_create_insert_fails)

section \<open>The payloads of a calendar result\<close>

lemma createEvent_result:
  assumes "createEvent e c noMail w = (Inr r, w')"
  shows "updatedEvent r = None \<and> success r = (createdEvent r \<noteq> None) \<and> er_type r = cr_type c"
  using assms
  by (auto simp: createEvent_def promise_simps Let_def try_sendEmail_apply
      split: list.splits prod.splits sum.splits option.splits if_splits)

lemma updateEvent_result:
  assumes "updateEvent e c noMail ref w = (Inr r, w')"
  shows "createdEvent r = None \<and> (\<not> success r \<longrightarrow> updatedEvent r = None)
       \<and> (\<not> truthy_opt_string ref \<longrightarrow> success r \<and> updatedEvent r = None)
       \<and> er_type r = cr_type c"
  using assms
  by (auto simp: updateEvent_def promise_simps Let_def try_sendEmail_apply truthy_opt_string_def
      truthy_updated_def
      split: list.splits prod.splits sum.splits option.splits if_splits)

text \<open>
  Claim C5, as amended. For every \<open>EventResult\<close> produced by the calendar create or
  update operation, at most one of \<open>createdEvent\<close>/\<open>updatedEvent\<close> is populated, and
  both are absent when \<open>success\<close> is false. A create result is successful exactly when
  its \<open>createdEvent\<close> is populated. An update that has no prior reference uid is
  skipped: its result has \<open>success\<close> true and neither payload.
\<close>

theorem C5_result_payloads:
  "(fst (createEvent e c noMail w) = Inr r \<longrightarrow>
      updatedEvent r = None \<and> success r = (createdEvent r \<noteq> None))
   \<and> (fst (updateEvent e c noMail ref w) = Inr r' \<longrightarrow>
        createdEvent r' = None
        \<and> (\<not> success r' \<longrightarrow> updatedEvent r' = None)
        \<and> (\<not> truthy_opt_string ref \<longrightarrow> success r' \<and> updatedEvent r' = None))"
proof (intro conjI impI)
  assume "fst (createEvent e c noMail w) = Inr r"
  then have "createEvent e c noMail w = (Inr r, snd (createEvent e c noMail w))"
    by (simp add: prod_eq_iff)
  from createEvent_result [OF this]
  show "updatedEvent r = None" and "success r = (createdEvent r \<noteq> None)" by simp_all
next
  assume "fst (updateEvent e c noMail ref w) = Inr r'"
  then have "updateEvent e c noMail ref w = (Inr r', snd (updateEvent e c noMail ref w))"
    by (simp add: prod_eq_iff)
  note u = updateEvent_result [OF this]
  show "createdEvent r' = None" using u by simp
  { assume "\<not> success r'" then show "updatedEvent r' = None" using u by simp }
  { assume "\<not> truthy_opt_string ref"
    then show "success r'" and "updatedEvent r' = None" using u by simp_all }
qed

theorem C5_result_payloads_witness:
  "(\<exists>r. fst (createEvent example_env google_credential None (world_of example_event)) = Inr r
        \<and> success r \<and> createdEvent r \<noteq> None \<and> updatedEvent r = None)
   \<and> (\<exists>r. fst (updateEvent env_refresh_fails office365_expired None (Some ''o-1'')
                  (world_of example_event)) = Inr r
          \<and> \<not> success r \<and> createdEvent r = None \<and> updatedEvent r = None)
   \<and> (\<exists>r. \<not> truthy_opt_string None
          \<and> fst (updateEvent example_env google_credential None None (world_of example_event)) = Inr r
          \<and> success r \<and> createdEvent r = None \<and> updatedEvent r = None)"
  using
    C5_result_payloads [of example_env google_credential None "world_of example_event" _
      "Some ''o-1''"]
    C5_result_payloads [of env_refresh_fails office365_expired None "world_of example_event" _
      "Some ''o-1''"]
    C5_result_payloads [of example_env google_credential None "world_of example_event" _ None]
    eval_createEvent_google eval_updateEvent_refresh_fails eval_updateEvent_no_reference
  by (simp add: truthy_opt_string_def)

text \<open>
  An update for a credential that has no prior reference: the adapter is not called,
  and the result has \<open>success\<close> true with neither payload populated.
\<close>

theorem C5_success_without_payload:
  "fst (updateEvent example_env google_credential None None (world_of example_event))
   = Inr \<lparr>er_type = ''google_calendar'', success = True, er_uid = ''uid-1'',
          createdEvent = None, updatedEvent = None, er_videoCallData = None\<rparr>"
  by (rule eval_updateEvent_no_reference)

section \<open>A failed token refresh\<close>

lemma o365_getToken_refresh_fails:
  assumes "o365_isExpired e (expiry_date k)"
    and "case post_token (graph e) (refresh_token k) of Inl err \<Rightarrow> True | Inr response \<Rightarrow> \<not> ok response"
  shows "\<exists>err. fst (o365_getToken e c k w) = Inl err"
  using assms
  by (auto simp: o365_getToken_def o365_refreshAccessToken_def fetch_then_def handleErrorsJson_def
      promise_simps split: sum.splits)


















lemma eval_createEvent_google_refresh_fails:
  "fst (createEvent env_refresh_fails google_expiring None (world_of example_event))
   = Inr \<lparr>er_type = ''google_calendar'', success = False, er_uid = ''uid-1'',
          createdEvent = None, updatedEvent = None, er_videoCallData = None\<rparr>"
  by (simp add: createEvent_def promise_simps Let_def try_sendEmail_apply truthy_opt_bool_def
      adapter_defs example_defs)

lemma eval_createEvent_office365_refresh_fails:
  "fst (createEvent env_refresh_fails office365_expired None (world_of example_event))
   = Inr \<lparr>er_type = ''office365_calendar'', success = False, er_uid = ''uid-1'',
          createdEvent = None, updatedEvent = None, er_videoCallData = None\<rparr>"
  by (simp add: createEvent_def promise_simps Let_def try_sendEmail_apply truthy_opt_bool_def
      adapter_defs example_defs)



section \<open>The aggregated busy-time query\<close>

lemma promise_all_rejects:
  assumes "p \<in> set ps" and "\<forall>w. isl (fst (p w))"
  shows "isl (fst (promise_all ps w))"
  using assms(1)
proof (induction ps arbitrary: w)
  case Nil
  then show ?case by simp
next
  case (Cons q qs)
  show ?case
  proof (cases "p = q")
    case True
    with assms(2) have "isl (fst (q w))" by simp
    then show ?thesis
      by (auto simp: isl_def split: prod.splits sum.splits)
  next
    case False
    with Cons.prems have "p \<in> set qs" by simp
    then have "isl (fst (promise_all qs (snd (q w))))" by (rule Cons.IH)
    then show ?thesis
      by (auto simp: isl_def split: prod.splits sum.splits)
  qed
qed

lemma promise_all_resolves:
  assumes "\<forall>p \<in> set ps. \<forall>w. \<not> isl (fst (p w))"
  shows "\<not> isl (fst (promise_all ps w))"
  using assms
proof (induction ps arbitrary: w)
  case Nil
  then show ?case by (simp add: resolve_apply)
next
  case (Cons q qs)
  then have q: "\<not> isl (fst (q w))" and rest: "\<not> isl (fst (promise_all qs (snd (q w))))"
    by simp_all
  then show ?case
    by (auto simp: isl_def split: prod.splits sum.splits)
qed

lemma getBusyCalendarTimes_rejects_iff:
  "isl (fst (getBusyCalendarTimes e creds f t sel w))
   = isl (fst (promise_all
                (map (\<lambda>c. adapter_getAvailability e c f t sel) (calendars creds)) w))"
  by (auto simp: getBusyCalendarTimes_def promise_simps isl_def split: prod.splits sum.splits)

text \<open>
  Claim C3, as amended. A failure in one provider's \<open>getAvailability\<close> call is not
  collapsed to an empty busy-list by the aggregation: when the call of any one provider
  rejects, the aggregated busy-time query rejects; the query resolves when the call of
  every provider resolves.
\<close>

theorem C3_provider_rejection_propagates:
  "(a \<in> set (calendars creds) \<and> (\<forall>w. isl (fst (adapter_getAvailability e a f t sel w)))
      \<longrightarrow> isl (fst (getBusyCalendarTimes e creds f t sel w)))
   \<and> ((\<forall>a \<in> set (calendars creds). \<forall>w. \<not> isl (fst (adapter_getAvailability e a f t sel w)))
      \<longrightarrow> \<not> isl (fst (getBusyCalendarTimes e creds f t sel w)))"
proof (intro conjI impI)
  assume h: "a \<in> set (calendars creds) \<and> (\<forall>w. isl (fst (adapter_getAvailability e a f t sel w)))"
  then have "adapter_getAvailability e a f t sel
      \<in> set (map (\<lambda>c. adapter_getAvailability e c f t sel) (calendars creds))"
    by simp
  from promise_all_rejects [OF this] h
  show "isl (fst (getBusyCalendarTimes e creds f t sel w))"
    by (simp add: getBusyCalendarTimes_rejects_iff)
next
  assume "\<forall>a \<in> set (calendars creds). \<forall>w. \<not> isl (fst (adapter_getAvailability e a f t sel w))"
  then have "\<forall>p \<in> set (map (\<lambda>c. adapter_getAvailability e c f t sel) (calendars creds)).
      \<forall>w. \<not> isl (fst (p w))"
    by simp
  from promise_all_resolves [OF this]
  show "\<not> isl (fst (getBusyCalendarTimes e creds f t sel w))"
    by (simp add: getBusyCalendarTimes_rejects_iff)
qed

lemmas availability_defs =
  getBusyCalendarTimes_def adapter_getAvailability_def google_getAvailability_def
  o365_getAvailability_def o365_listCalendars_def filter_Boolean_def

lemma example_calendars:
  "calendars [google_credential, office365_credential]
   = [GoogleCalendar google_credential, MicrosoftOffice365Calendar office365_credential]"
  by (simp add: calendars_def calendar_of_def List.map_filter_simps google_credential_def
      office365_credential_def)

lemma example_google_availability_rejects:
  "isl (fst (adapter_getAvailability env_freebusy_fails (GoogleCalendar google_credential)
               ''2021-11-01'' ''2021-11-02'' [] w))"
  by (simp add: availability_defs promise_simps adapter_defs example_defs)

lemma example_google_availability_resolves:
  "\<not> isl (fst (adapter_getAvailability example_env (GoogleCalendar google_credential)
                 ''2021-11-01'' ''2021-11-02'' [] w))"
  by (simp add: availability_defs promise_simps adapter_defs example_defs)

lemma example_office365_availability_resolves:
  "\<not> isl (fst (adapter_getAvailability example_env (MicrosoftOffice365Calendar office365_credential)
                 ''2021-11-01'' ''2021-11-02'' [] w))"
  by (simp add: availability_defs promise_simps adapter_defs example_defs)

theorem C3_provider_rejection_propagates_witness:
  "GoogleCalendar google_credential \<in> set (calendars [google_credential, office365_credential])
   \<and> (\<forall>w. isl (fst (adapter_getAvailability env_freebusy_fails (GoogleCalendar google_credential)
                      ''2021-11-01'' ''2021-11-02'' [] w)))
   \<and> isl (fst (getBusyCalendarTimes env_freebusy_fails [google_credential, office365_credential]
                 ''2021-11-01'' ''2021-11-02'' [] (world_of example_event)))
   \<and> (\<forall>w. \<not> isl (fst (adapter_getAvailability example_env (GoogleCalendar google_credential)
                        ''2021-11-01'' ''2021-11-02'' [] w)))
   \<and> (\<forall>w. \<not> isl (fst (adapter_getAvailability example_env
                        (MicrosoftOffice365Calendar office365_credential)
                        ''2021-11-01'' ''2021-11-02'' [] w)))
   \<and> \<not> isl (fst (getBusyCalendarTimes example_env [google_credential, office365_credential]
                   ''2021-11-01'' ''2021-11-02'' [] (world_of example_event)))"
  using
    C3_provider_rejection_propagates [of "GoogleCalendar google_credential"
      "[google_credential, office365_credential]" env_freebusy_fails
      "''2021-11-01''" "''2021-11-02''" "[]" "world_of example_event"]
    C3_provider_rejection_propagates [of "GoogleCalendar google_credential"
      "[google_credential, office365_credential]" example_env
      "''2021-11-01''" "''2021-11-02''" "[]" "world_of example_event"]
    example_google_availability_rejects example_google_availability_resolves
    example_office365_availability_resolves
  by (simp add: example_calendars)

text \<open>
  Two calendar credentials; the Google free/busy query fails, the Office 365 one
  answers. The aggregated query rejects with the Google error.
\<close>

theorem C3_aggregate_rejects:
  "fst (getBusyCalendarTimes env_freebusy_fails [google_credential, office365_credential]
          ''2021-11-01'' ''2021-11-02'' [] (world_of example_event))
   = Inl (Error ''503'')"
  by (simp add: availability_defs promise_simps adapter_defs example_defs)

text \<open>
  The Office 365 adapter on an expired token whose refresh fails: its
  \<open>getAvailability\<close> rejects, with an empty list as the reason.
\<close>

lemma o365_getAvailability_refresh_fails:
  assumes "o365_isExpired e (expiry_date (cr_key c))"
    and "case post_token (graph e) (refresh_token (cr_key c)) of Inl err \<Rightarrow> True | Inr response \<Rightarrow> \<not> ok response"
  shows "fst (o365_getAvailability e c f t sel w) = Inl RejectedEmptyList"
  using o365_getToken_refresh_fails [OF assms, of c w]
  by (auto simp: o365_getAvailability_def promise_simps split: prod.splits sum.splits)

section \<open>Which calendar adapters a request calls\<close>

lemma adapter_calls_append: "adapter_calls (xs @ ys) = adapter_calls xs @ adapter_calls ys"
  by (induction xs) (simp_all add: adapter_calls_def List.map_filter_simps split: option.splits)

lemma adapter_calls_Nil: "adapter_calls [] = []"
  by (simp add: adapter_calls_def List.map_filter_simps)

lemma adapter_calls_single:
  "adapter_calls [AdapterCreateEvent c ev] = [c]"
  "adapter_calls [AdapterUpdateEvent c u ev] = [c]"
  "adapter_calls [SendEmail m ev] = []"
  "adapter_calls [TokenRefresh c] = []"
  "adapter_calls [CredentialUpdate i k] = []"
  "adapter_calls [AdapterDeleteEvent c u] = []"
  "adapter_calls [AdapterGetAvailability c] = []"
  "adapter_calls [CreateMeeting c] = []"
  "adapter_calls [UpdateMeeting c r] = []"
  "adapter_calls [BookingFindFirst u] = []"
  "adapter_calls [BookingReferenceDeleteMany i] = []"
  "adapter_calls [AttendeeDeleteMany i] = []"
  "adapter_calls [BookingDelete i] = []"
  by (simp_all add: adapter_calls_def List.map_filter_simps)

lemmas calls_simps = adapter_calls_append adapter_calls_single adapter_calls_Nil

lemma quietD: "quiet m \<Longrightarrow> m w = (r, w') \<Longrightarrow> adapter_calls (effects w') = adapter_calls (effects w)"
  by (auto simp: quiet_def dest: spec [of _ w])

lemma quiet_resolve: "quiet (resolve a)"
  by (simp add: quiet_def resolve_apply)

lemma quiet_reject: "quiet (reject x)"
  by (simp add: quiet_def reject_apply)

lemma quiet_settled: "quiet (settled r)"
  by (simp add: quiet_def settled_apply)

lemma quiet_get_event: "quiet get_event"
  by (simp add: quiet_def get_event_apply)

lemma quiet_modify_event: "quiet (modify_event f)"
  by (simp add: quiet_def modify_event_apply)

lemma quiet_emit: "adapter_calls [x] = [] \<Longrightarrow> quiet (emit x)"
  by (simp add: quiet_def emit_apply adapter_calls_append)

lemma quiet_andThen:
  assumes "quiet m" and "\<And>a. quiet (f a)"
  shows "quiet (andThen m f)"
  unfolding quiet_def
proof
  fix w
  obtain r w' where m: "m w = (r, w')" by (cases "m w")
  from quietD [OF assms(1) m] have 1: "adapter_calls (effects w') = adapter_calls (effects w)" .
  show "adapter_calls (effects (snd (andThen m f w))) = adapter_calls (effects w)"
  proof (cases r)
    case (Inl x)
    with m 1 show ?thesis by (simp add: andThen_apply)
  next
    case (Inr a)
    obtain r2 w2 where f: "f a w' = (r2, w2)" by (cases "f a w'")
    from quietD [OF assms(2) f] 1 m Inr f show ?thesis by (simp add: andThen_apply)
  qed
qed

lemma quiet_catch:
  assumes "quiet m" and "\<And>x. quiet (h x)"
  shows "quiet (catch m h)"
  unfolding quiet_def
proof
  fix w
  obtain r w' where m: "m w = (r, w')" by (cases "m w")
  from quietD [OF assms(1) m] have 1: "adapter_calls (effects w') = adapter_calls (effects w)" .
  show "adapter_calls (effects (snd (catch m h w))) = adapter_calls (effects w)"
  proof (cases r)
    case (Inr a)
    with m 1 show ?thesis by (simp add: catch_apply)
  next
    case (Inl x)
    obtain r2 w2 where f: "h x w' = (r2, w2)" by (cases "h x w'")
    from quietD [OF assms(2) f] 1 m Inl f show ?thesis by (simp add: catch_apply)
  qed
qed

lemma quiet_promise_all: "(\<And>p. p \<in> set ps \<Longrightarrow> quiet p) \<Longrightarrow> quiet (promise_all ps)"
proof (induction ps)
  case Nil
  show ?case by (simp add: quiet_resolve)
next
  case (Cons q qs)
  then have q: "quiet q" and rest: "quiet (promise_all qs)" by simp_all
  show ?case
    unfolding quiet_def
  proof
    fix w
    obtain r w' where 1: "q w = (r, w')" by (cases "q w")
    obtain rs w'' where 2: "promise_all qs w' = (rs, w'')" by (cases "promise_all qs w'")
    from quietD [OF q 1] quietD [OF rest 2] 1 2
    show "adapter_calls (effects (snd (promise_all (q # qs) w))) = adapter_calls (effects w)"
      by simp
  qed
qed

lemmas quiet_intros =
  quiet_resolve quiet_reject quiet_settled quiet_get_event quiet_modify_event
  quiet_andThen quiet_catch

lemma quiet_try_sendEmail: "quiet (try_sendEmail e m ev)"
  by (simp add: quiet_def try_sendEmail_apply calls_simps)

lemma quiet_prisma_credential_update: "quiet (prisma_credential_update e i k)"
  unfolding prisma_credential_update_def
  by (intro quiet_intros quiet_emit) (simp_all add: calls_simps quiet_intros split: option.splits)

lemma quiet_fetch_then: "quiet (fetch_then r h)"
  by (simp add: fetch_then_def quiet_intros split: sum.splits)

lemma quiet_google_getToken: "quiet (google_getToken e c)"
  unfolding google_getToken_def google_refreshAccessToken_def Let_def
  by (auto intro!: quiet_intros quiet_emit quiet_prisma_credential_update
      simp: calls_simps split: sum.splits prod.splits)

lemma quiet_o365_getToken: "quiet (o365_getToken e c k)"
  unfolding o365_getToken_def o365_refreshAccessToken_def Let_def
  by (auto intro!: quiet_intros quiet_emit quiet_prisma_credential_update quiet_fetch_then
      simp: calls_simps split: sum.splits prod.splits)

lemma quiet_google_authorize: "quiet (google_authorize e c k)"
  unfolding google_authorize_def
  by (auto intro!: quiet_intros quiet_emit simp: calls_simps split: sum.splits prod.splits)

lemma quiet_google_createEvent: "quiet (google_createEvent e c ev)"
  unfolding google_createEvent_def
  by (auto intro!: quiet_intros quiet_google_getToken quiet_google_authorize
      split: sum.splits option.splits)

lemma quiet_google_updateEvent: "quiet (google_updateEvent e c u ev)"
  unfolding google_updateEvent_def
  by (auto intro!: quiet_intros quiet_google_getToken quiet_google_authorize
      split: sum.splits option.splits)

lemma quiet_o365_createEvent: "quiet (o365_createEvent e c ev)"
  unfolding o365_createEvent_def
  by (auto intro!: quiet_intros quiet_o365_getToken quiet_fetch_then split: prod.splits)

lemma quiet_o365_updateEvent: "quiet (o365_updateEvent e c u ev)"
  unfolding o365_updateEvent_def
  by (auto intro!: quiet_intros quiet_o365_getToken quiet_fetch_then split: prod.splits)

lemma adapter_createEvent_calls:
  assumes "adapter_createEvent e a ev w = (r, w')"
  shows "adapter_calls (effects w') = adapter_calls (effects w) @ [adapter_credential a]"
proof -
  let ?w1 = "w\<lparr>effects := effects w @ [AdapterCreateEvent (adapter_credential a) ev]\<rparr>"
  have q: "quiet (case a of
          GoogleCalendar c \<Rightarrow> google_createEvent e c ev
        | MicrosoftOffice365Calendar c \<Rightarrow> o365_createEvent e c ev
        | CalDavCalendar c \<Rightarrow> settled (dav_createEvent (ext e) c ev)
        | AppleCalendar c \<Rightarrow> settled (dav_createEvent (ext e) c ev))"
    by (cases a) (simp_all add: quiet_google_createEvent quiet_o365_createEvent quiet_settled)
  from assms have "(case a of
          GoogleCalendar c \<Rightarrow> google_createEvent e c ev
        | MicrosoftOffice365Calendar c \<Rightarrow> o365_createEvent e c ev
        | CalDavCalendar c \<Rightarrow> settled (dav_createEvent (ext e) c ev)
        | AppleCalendar c \<Rightarrow> settled (dav_createEvent (ext e) c ev)) ?w1 = (r, w')"
    by (simp add: adapter_createEvent_def andThen_apply emit_apply)
  from quietD [OF q this] show ?thesis
    by (simp add: calls_simps)
qed

lemma adapter_updateEvent_calls:
  assumes "adapter_updateEvent e a u ev w = (r, w')"
  shows "adapter_calls (effects w') = adapter_calls (effects w) @ [adapter_credential a]"
proof -
  let ?w1 = "w\<lparr>effects := effects w @ [AdapterUpdateEvent (adapter_credential a) u ev]\<rparr>"
  have q: "quiet (case a of
          GoogleCalendar c \<Rightarrow> google_updateEvent e c u ev
        | MicrosoftOffice365Calendar c \<Rightarrow> o365_updateEvent e c u ev
        | CalDavCalendar c \<Rightarrow> settled (dav_updateEvent (ext e) c u ev)
        | AppleCalendar c \<Rightarrow> settled (dav_updateEvent (ext e) c u ev))"
    by (cases a) (simp_all add: quiet_google_updateEvent quiet_o365_updateEvent quiet_settled)
  from assms have "(case a of
          GoogleCalendar c \<Rightarrow> google_updateEvent e c u ev
        | MicrosoftOffice365Calendar c \<Rightarrow> o365_updateEvent e c u ev
        | CalDavCalendar c \<Rightarrow> settled (dav_updateEvent (ext e) c u ev)
        | AppleCalendar c \<Rightarrow> settled (dav_updateEvent (ext e) c u ev)) ?w1 = (r, w')"
    by (simp add: adapter_updateEvent_def andThen_apply emit_apply)
  from quietD [OF q this] show ?thesis
    by (simp add: calls_simps)
qed

lemma calendars_single:
  "calendars [c] = (case calendar_of c of None \<Rightarrow> [] | Some a \<Rightarrow> [a])"
  by (simp add: calendars_def List.map_filter_simps split: option.splits)

lemma calendar_of_credential: "calendar_of c = Some a \<Longrightarrow> adapter_credential a = c"
  by (auto simp: calendar_of_def adapter_credential_def split: if_splits)

lemma createEvent_calls:
  "adapter_calls (effects (snd (createEvent e c noMail w)))
   = adapter_calls (effects w) @ (if calendar_of c = None then [] else [c])"
proof (cases "calendar_of c")
  case None
  then show ?thesis
    by (simp add: createEvent_def calendars_single promise_simps Let_def)
next
  case (Some a)
  obtain r w' where a: "adapter_createEvent e a (asRichEventPlain (ext e) (the_event w)) w = (r, w')"
    by (cases "adapter_createEvent e a (asRichEventPlain (ext e) (the_event w)) w")
  from adapter_createEvent_calls [OF a] calendar_of_credential [OF Some]
  have "adapter_calls (effects w') = adapter_calls (effects w) @ [c]" by simp
  with Some a show ?thesis
    by (auto simp: createEvent_def calendars_single promise_simps Let_def try_sendEmail_apply
        calls_simps split: sum.splits)
qed

lemma updateEvent_calls:
  "adapter_calls (effects (snd (updateEvent e c noMail ref w)))
   = adapter_calls (effects w)
     @ (if truthy_opt_string ref \<and> calendar_of c \<noteq> None then [c] else [])"
proof (cases "truthy_opt_string ref \<and> calendar_of c \<noteq> None")
  case False
  then show ?thesis
    by (auto simp: updateEvent_def calendars_single promise_simps Let_def truthy_opt_string_def
        truthy_updated_def split: option.splits)
next
  case True
  then obtain u a where ref: "ref = Some u" and u: "truthy_string u" and a: "calendar_of c = Some a"
    by (auto simp: truthy_opt_string_def split: option.splits)
  obtain r w' where r: "adapter_updateEvent e a u (asRichEventPlain (ext e) (the_event w)) w = (r, w')"
    by (cases "adapter_updateEvent e a u (asRichEventPlain (ext e) (the_event w)) w")
  from adapter_updateEvent_calls [OF r] calendar_of_credential [OF a]
  have "adapter_calls (effects w') = adapter_calls (effects w) @ [c]" by simp
  with True ref u a r show ?thesis
    by (auto simp: updateEvent_def calendars_single promise_simps Let_def try_sendEmail_apply
        calls_simps split: sum.splits)
qed

text \<open>
  \<open>updateEvent\<close> rejects only when it is to call the adapter of a credential that has
  none; a failure of the adapter itself is caught and recorded in the result.
\<close>

lemma updateEvent_resolves:
  assumes "truthy_opt_string ref \<longrightarrow> calendar_of c \<noteq> None"
  shows "\<exists>r. fst (updateEvent e c noMail ref w) = Inr r"
  using assms
  by (auto simp: updateEvent_def calendars_single promise_simps Let_def truthy_opt_string_def
      try_sendEmail_apply split: option.splits prod.splits sum.splits)

lemma calls_andThen_quiet:
  assumes "\<And>a. quiet (f a)"
  shows "adapter_calls (effects (snd (andThen m f w))) = adapter_calls (effects (snd (m w)))"
proof -
  obtain r w' where m: "m w = (r, w')" by (cases "m w")
  show ?thesis
  proof (cases r)
    case (Inl x)
    with m show ?thesis by (simp add: andThen_apply)
  next
    case (Inr a)
    obtain r2 w2 where f: "f a w' = (r2, w2)" by (cases "f a w'")
    from quietD [OF assms f] m Inr f show ?thesis by (simp add: andThen_apply)
  qed
qed

lemma andThen_modify_event:
  "andThen (modify_event f) g w = g () (w\<lparr>the_event := f (the_event w)\<rparr>)"
  by (simp add: andThen_apply modify_event_apply)

lemma andThen_get_event: "andThen get_event g w = g (the_event w) w"
  by (simp add: andThen_apply get_event_apply)

lemma andThen_emit: "andThen (emit x) g w = g () (w\<lparr>effects := effects w @ [x]\<rparr>)"
  by (simp add: andThen_apply emit_apply)

lemma andThen_settled_Inr: "andThen (settled (Inr a)) g w = g a w"
  by (simp add: andThen_apply settled_apply)

lemma andThen_settled_Inl: "andThen (settled (Inl x)) g w = (Inl x, w)"
  by (simp add: andThen_apply settled_apply)

lemma quiet_sendAttendeeMail: "quiet (sendAttendeeMail e ty rs)"
  unfolding sendAttendeeMail_def Let_def
  by (auto intro!: quiet_intros quiet_try_sendEmail)

lemma quiet_createVideoEvent: "quiet (createVideoEvent e this)"
  unfolding createVideoEvent_def
  by (auto intro!: quiet_intros quiet_emit simp: calls_simps split: option.splits)

lemma quiet_updateVideoEvent: "quiet (updateVideoEvent e this booking)"
  unfolding updateVideoEvent_def Let_def
  by (auto intro!: quiet_intros quiet_emit simp: calls_simps split: option.splits)

lemma quiet_prisma_delete: "adapter_calls [x] = [] \<Longrightarrow> quiet (prisma_delete x r)"
  unfolding prisma_delete_def
  by (auto intro!: quiet_intros quiet_emit split: option.splits)

lemma quiet_deletes:
  "quiet (promise_all
            [prisma_delete (BookingReferenceDeleteMany i) a,
             prisma_delete (AttendeeDeleteMany i) b,
             prisma_delete (BookingDelete i) c])"
  by (rule quiet_promise_all) (auto intro: quiet_prisma_delete simp: calls_simps)

lemma quiet_set_videoCallData:
  "quiet (case v of Some d \<Rightarrow> modify_event (\<lambda>ev. ev\<lparr>videoCallData := Some d\<rparr>) | None \<Rightarrow> resolve ())"
  by (cases v) (simp_all add: quiet_intros)

lemma createAllCalendarEvents_calls:
  "adapter_calls (effects (snd (createAllCalendarEvents e this noMail w)))
   = adapter_calls (effects w)
     @ (case calendarCredentials this of
          [] \<Rightarrow> []
        | c # cs \<Rightarrow> if calendar_of c = None then [] else [c])"
proof (cases "calendarCredentials this")
  case Nil
  then show ?thesis by (simp add: createAllCalendarEvents_def resolve_apply)
next
  case (Cons c cs)
  have "adapter_calls (effects (snd (andThen (createEvent e c noMail) (\<lambda>r. resolve [r]) w)))
        = adapter_calls (effects (snd (createEvent e c noMail w)))"
    by (rule calls_andThen_quiet) (rule quiet_resolve)
  with Cons show ?thesis
    by (simp add: createAllCalendarEvents_def createEvent_calls)
qed

lemma create_calls:
  "adapter_calls (effects (snd (create e this w)))
   = adapter_calls (effects w)
     @ (case calendarCredentials this of
          [] \<Rightarrow> []
        | c # cs \<Rightarrow> if calendar_of c = None then [] else [c])"
proof -
  let ?w1 = "w\<lparr>the_event := processLocation (locationType (ext e)) (uuidv5 (ext e)) (the_event w)\<rparr>"
  let ?d = "isDedicated_of (location (processLocation (locationType (ext e)) (uuidv5 (ext e)) (the_event w)))"
  let ?rest = "\<lambda>rs. andThen
                      (if truthy_opt_bool ?d
                       then andThen (createVideoEvent e this)
                              (\<lambda>result.
                                 andThen
                                   (case er_videoCallData result of
                                      Some v \<Rightarrow> modify_event (\<lambda>ev. ev\<lparr>videoCallData := Some v\<rparr>)
                                    | None \<Rightarrow> resolve ())
                                   (\<lambda>_. resolve (rs @ [result])))
                       else andThen (sendAttendeeMail e New rs) (\<lambda>_. resolve rs))
                      (\<lambda>rs'. resolve
                         \<lparr>results = rs',
                          referencesToCreate = map reference_of_result rs'\<rparr>)"
  have q: "\<And>rs. quiet (?rest rs)"
    by (auto intro!: quiet_intros quiet_createVideoEvent quiet_sendAttendeeMail
        quiet_set_videoCallData)
  have "create e this w = andThen (createAllCalendarEvents e this ?d) ?rest ?w1"
    by (simp add: create_def Let_def andThen_modify_event andThen_get_event)
  then have "adapter_calls (effects (snd (create e this w)))
      = adapter_calls (effects (snd (createAllCalendarEvents e this ?d ?w1)))"
    using calls_andThen_quiet [of ?rest "createAllCalendarEvents e this ?d" ?w1, OF q] by simp
  then show ?thesis
    by (simp add: createAllCalendarEvents_calls)
qed

lemma mapLimit_updateEvent_calls:
  assumes "\<forall>c \<in> set cs. truthy_opt_string (g c) \<longrightarrow> calendar_of c \<noteq> None"
  shows "adapter_calls (effects (snd (mapLimit cs n (\<lambda>c. updateEvent e c noMail (g c)) w)))
       = adapter_calls (effects w) @ filter (\<lambda>c. truthy_opt_string (g c)) cs"
  using assms
proof (induction cs arbitrary: w)
  case Nil
  then show ?case by (simp add: resolve_apply)
next
  case (Cons c cs)
  let ?f = "\<lambda>c. updateEvent e c noMail (g c)"
  from Cons.prems have c: "truthy_opt_string (g c) \<longrightarrow> calendar_of c \<noteq> None"
    and rest: "\<forall>c \<in> set cs. truthy_opt_string (g c) \<longrightarrow> calendar_of c \<noteq> None"
    by simp_all
  obtain y where y: "fst (?f c w) = Inr y"
    using updateEvent_resolves [OF c] by blast
  define w1 where "w1 = snd (?f c w)"
  from y have 1: "?f c w = (Inr y, w1)"
    by (simp add: w1_def prod_eq_iff)
  have head: "adapter_calls (effects w1)
      = adapter_calls (effects w) @ (if truthy_opt_string (g c) then [c] else [])"
    using updateEvent_calls [of e c noMail "g c" w] c by (auto simp: w1_def)
  have "adapter_calls (effects (snd (mapLimit (c # cs) n ?f w)))
      = adapter_calls (effects (snd (andThen (mapLimit cs n ?f) (\<lambda>ys. resolve (y # ys)) w1)))"
    using 1 by simp
  also have "\<dots> = adapter_calls (effects (snd (mapLimit cs n ?f w1)))"
    by (rule calls_andThen_quiet) (rule quiet_resolve)
  also have "\<dots> = adapter_calls (effects w1) @ filter (\<lambda>c. truthy_opt_string (g c)) cs"
    by (rule Cons.IH [OF rest])
  finally show ?case
    using head by simp
qed

text \<open>
  With no more calendar credentials than the limit, every iteratee of \<open>mapLimit\<close> is
  started, also when one of them rejects: each credential that has an adapter and a
  non-empty first reference uid is asked.
\<close>

lemma run_started_updateEvent_calls:
  "adapter_calls (effects (run_started cs (\<lambda>c. updateEvent e c noMail (g c)) w))
   = adapter_calls (effects w)
     @ filter (\<lambda>c. truthy_opt_string (g c) \<and> calendar_of c \<noteq> None) cs"
proof (induction cs arbitrary: w)
  case Nil
  show ?case by simp
next
  case (Cons c cs)
  show ?case
    using Cons.IH [of "snd (updateEvent e c noMail (g c) w)"]
      updateEvent_calls [of e c noMail "g c" w]
    by simp
qed

lemma mapLimit_updateEvent_calls_within_limit:
  assumes "length cs \<le> n"
  shows "adapter_calls (effects (snd (mapLimit cs n (\<lambda>c. updateEvent e c noMail (g c)) w)))
       = adapter_calls (effects w)
         @ filter (\<lambda>c. truthy_opt_string (g c) \<and> calendar_of c \<noteq> None) cs"
  using assms
proof (induction cs arbitrary: w)
  case Nil
  then show ?case by (simp add: resolve_apply)
next
  case (Cons c cs)
  let ?f = "\<lambda>c. updateEvent e c noMail (g c)"
  from Cons.prems have len: "length cs \<le> n" and all: "take (n - 1) cs = cs"
    by simp_all
  obtain r1 w1 where 1: "?f c w = (r1, w1)" by (cases "?f c w")
  have head: "adapter_calls (effects w1)
      = adapter_calls (effects w)
        @ (if truthy_opt_string (g c) \<and> calendar_of c \<noteq> None then [c] else [])"
    using updateEvent_calls [of e c noMail "g c" w] 1 by simp
  show ?case
  proof (cases r1)
    case (Inl err)
    with 1 all have "snd (mapLimit (c # cs) n ?f w) = run_started cs ?f w1"
      by simp
    then show ?thesis
      using head by (simp add: run_started_updateEvent_calls)
  next
    case (Inr y)
    with 1 have "adapter_calls (effects (snd (mapLimit (c # cs) n ?f w)))
        = adapter_calls (effects (snd (andThen (mapLimit cs n ?f) (\<lambda>ys. resolve (y # ys)) w1)))"
      by simp
    also have "\<dots> = adapter_calls (effects (snd (mapLimit cs n ?f w1)))"
      by (rule calls_andThen_quiet) (rule quiet_resolve)
    also have "\<dots> = adapter_calls (effects w1)
        @ filter (\<lambda>c. truthy_opt_string (g c) \<and> calendar_of c \<noteq> None) cs"
      by (rule Cons.IH [OF len])
    finally show ?thesis
      using head by simp
  qed
qed

lemma update_calls:
  assumes t: "truthy_string u"
    and found: "booking_findFirst (prisma e) u = Inr (Some booking)"
    and adapters: "\<forall>c \<in> set (calendarCredentials this).
        truthy_opt_string (map_option ref_uid (first_reference (Some booking) c))
        \<longrightarrow> calendar_of c \<noteq> None"
  shows "adapter_calls (effects (snd (update e this u w)))
       = adapter_calls (effects w)
         @ filter (\<lambda>c. truthy_opt_string (map_option ref_uid (first_reference (Some booking) c)))
             (calendarCredentials this)"
proof -
  let ?ev = "processLocation (locationType (ext e)) (uuidv5 (ext e)) (the_event w)"
  let ?w1 = "w\<lparr>the_event := ?ev, effects := effects w @ [BookingFindFirst u]\<rparr>"
  let ?d = "isDedicated_of (location ?ev)"
  let ?rest = "\<lambda>rs. andThen
                      (if truthy_opt_bool ?d
                       then andThen (updateVideoEvent e this (Some booking))
                              (\<lambda>result.
                                 andThen
                                   (case er_videoCallData result of
                                      Some v \<Rightarrow> modify_event (\<lambda>ev. ev\<lparr>videoCallData := Some v\<rparr>)
                                    | None \<Rightarrow> resolve ())
                                   (\<lambda>_. resolve (rs @ [result])))
                       else andThen (sendAttendeeMail e Reschedule rs) (\<lambda>_. resolve rs))
                      (\<lambda>rs'. andThen
                                       (promise_all
                                          [prisma_delete (BookingReferenceDeleteMany (bk_id booking))
                                             (bookingReference_deleteMany (prisma e) (bk_id booking)),
                                           prisma_delete (AttendeeDeleteMany (bk_id booking))
                                             (attendee_deleteMany (prisma e) (bk_id booking)),
                                           prisma_delete (BookingDelete (bk_id booking))
                                             (booking_delete (prisma e) (bk_id booking))])
                                       (\<lambda>_. resolve
                                          \<lparr>results = rs',
                                           referencesToCreate = references booking\<rparr>))"
  let ?m = "updateAllCalendarEvents e this (Some booking) ?d"
  have q: "\<And>rs. quiet (?rest rs)"
    by (auto intro!: quiet_intros quiet_updateVideoEvent quiet_sendAttendeeMail
        quiet_set_videoCallData quiet_deletes simp del: promise_all.simps)
  have eq: "update e this u w = andThen ?m ?rest ?w1"
    using t found
    by (simp add: update_def Let_def andThen_modify_event andThen_get_event andThen_emit
        andThen_settled_Inr)
  have "adapter_calls (effects (snd (update e this u w)))
      = adapter_calls (effects (snd (?m ?w1)))"
    using calls_andThen_quiet [of ?rest ?m ?w1, OF q] eq by simp
  also have "\<dots> = adapter_calls (effects ?w1)
      @ filter (\<lambda>c. truthy_opt_string (map_option ref_uid (first_reference (Some booking) c)))
          (calendarCredentials this)"
    unfolding updateAllCalendarEvents_def Let_def
    by (rule mapLimit_updateEvent_calls [OF adapters])
  finally show ?thesis
    by (simp add: calls_simps)
qed

text \<open>
  No calendar adapter is called by an update that stops before dispatch: without a
  reschedule uid, or when the booking is not found.
\<close>

lemma update_not_dispatched:
  assumes "\<not> truthy_string u \<or> isl (booking_findFirst (prisma e) u)
           \<or> booking_findFirst (prisma e) u = Inr None"
  shows "adapter_calls (effects (snd (update e this u w))) = adapter_calls (effects w)"
  using assms
  by (auto simp: update_def Let_def andThen_modify_event andThen_get_event andThen_emit
      andThen_settled_Inr andThen_settled_Inl reject_apply calls_simps isl_def)

text \<open>
  Claim C4, as amended. For every create request, calendar dispatch asks at most one
  calendar-provider adapter to create the entry: the adapter of the first calendar
  credential, however many calendar credentials are configured, and none when there is
  no calendar credential (or no adapter for the first one's type). For every update
  request that reaches calendar dispatch (a reschedule uid is given and the booking is
  found), calendar dispatch asks the adapter of every calendar credential whose first
  prior reference of its type has a non-empty uid, once each and in the order of the
  credentials, provided each of these credentials has an adapter.
\<close>

theorem C4_calendar_dispatch:
  "adapter_calls (effects (snd (create e this w)))
     = adapter_calls (effects w)
       @ (case calendarCredentials this of
            [] \<Rightarrow> []
          | c # cs \<Rightarrow> if calendar_of c = None then [] else [c])
   \<and> (truthy_string u \<and> booking_findFirst (prisma e) u = Inr (Some booking)
        \<and> (\<forall>c \<in> set (calendarCredentials this).
              truthy_opt_string (map_option ref_uid (first_reference (Some booking) c))
              \<longrightarrow> calendar_of c \<noteq> None)
      \<longrightarrow> adapter_calls (effects (snd (update e this u w)))
          = adapter_calls (effects w)
            @ filter (\<lambda>c. truthy_opt_string (map_option ref_uid (first_reference (Some booking) c)))
                (calendarCredentials this))"
  using create_calls [of e this w] update_calls [of u e booking this w]
  by simp

lemma eval_update_two_calendars:
  "fst (update example_env (new_EventManager example_env [google_credential, office365_credential])
          ''re-1'' (world_of example_event))
   = Inr \<lparr>results =
            [\<lparr>er_type = ''google_calendar'', success = True, er_uid = ''uid-1'', createdEvent = None,
              updatedEvent = Some (EventObject provider_event), er_videoCallData = None\<rparr>,
             \<lparr>er_type = ''office365_calendar'', success = True, er_uid = ''uid-1'',
              createdEvent = None, updatedEvent = Some (EventText ''{}''),
              er_videoCallData = None\<rparr>],
          referencesToCreate = references example_booking\<rparr>"
  by (simp add: manager_defs promise_simps try_sendEmail_apply adapter_defs example_defs)

lemma eval_update_two_calendars_calls:
  "adapter_calls
     (effects (snd (update example_env
                      (new_EventManager example_env [google_credential, office365_credential])
                      ''re-1'' (world_of example_event))))
   = [google_credential, office365_credential]"
  by (simp add: manager_defs promise_simps try_sendEmail_apply adapter_defs example_defs
      adapter_calls_def provider_event_def)

lemma example_two_calendars:
  "calendarCredentials (new_EventManager example_env [google_credential, office365_credential])
   = [google_credential, office365_credential]"
  "booking_findFirst (prisma example_env) ''re-1'' = Inr (Some example_booking)"
  "calendar_of google_credential \<noteq> None"
  "calendar_of office365_credential \<noteq> None"
  "effects (world_of example_event) = []"
  by (simp_all add: new_EventManager_def endsWith_def calendar_of_def example_defs)

theorem C4_calendar_dispatch_witness:
  "adapter_calls
     (effects (snd (create example_env
                      (new_EventManager example_env [google_credential, office365_credential])
                      (world_of example_event))))
   = [google_credential]
   \<and> truthy_string ''re-1''
   \<and> booking_findFirst (prisma example_env) ''re-1'' = Inr (Some example_booking)
   \<and> calendar_of google_credential \<noteq> None
   \<and> calendar_of office365_credential \<noteq> None
   \<and> adapter_calls
       (effects (snd (update example_env
                        (new_EventManager example_env [google_credential, office365_credential])
                        ''re-1'' (world_of example_event))))
     = filter (\<lambda>c. truthy_opt_string (map_option ref_uid (first_reference (Some example_booking) c)))
         [google_credential, office365_credential]"
  using C4_calendar_dispatch [of example_env
      "new_EventManager example_env [google_credential, office365_credential]"
      "world_of example_event" "''re-1''" example_booking]
    example_two_calendars
  by (simp add: calls_simps truthy_string_def)

text \<open>
  An update with two calendar credentials, each with a prior reference: the adapters of
  both are called, not only the first one's.
\<close>

theorem C4_update_calls_every_calendar:
  "adapter_calls
     (effects (snd (update example_env
                      (new_EventManager example_env [google_credential, office365_credential])
                      ''re-1'' (world_of example_event))))
   = [google_credential, office365_credential]"
  by (rule eval_update_two_calendars_calls)

end
